theory Spec2Isabelle
  imports Complex_Main
begin

text \<open>
  A model of the three route handlers of the credit-scoring dashboard: the fairness
  analysis (\<open>fairness/analyze/route.ts\<close>), the credit score (\<open>model/predict/route.ts\<close>)
  and its explanation (\<open>shap/explain/route.ts\<close>). The handlers take any JSON value, so
  the model starts with the numbers and the values of JavaScript and the conversions that
  the operators of the handlers apply to them. Each handler is a function of the parsed
  request body; what \<open>Math.random()\<close> and \<open>new Date()\<close> return are further arguments.
\<close>

section \<open>JavaScript numbers\<close>

text \<open>
  The three route handlers compute with JavaScript numbers. A number is modelled as
  a rational (\<open>Fin q\<close>, with \<open>Fin 0\<close> the positive zero), the negative zero, the two
  infinities or NaN. Finite arithmetic is exact: the rounding, overflow and underflow of
  IEEE doubles are not modelled. Division by zero, the signs of zeros and infinities,
  and NaN follow the language: a division by zero yields an infinity or NaN, and
  every comparison with NaN is false.
\<close>

datatype jsnum = NaN | NInf | NZero | Fin rat | PInf

fun sign_neg :: "jsnum \<Rightarrow> bool" where
  "sign_neg NInf = True"
| "sign_neg NZero = True"
| "sign_neg (Fin q) = (q < 0)"
| "sign_neg _ = False"

fun mag :: "jsnum \<Rightarrow> rat" where
  "mag (Fin q) = q"
| "mag _ = 0"

definition is_inf :: "jsnum \<Rightarrow> bool" where
  "is_inf a = (a = PInf \<or> a = NInf)"

definition is_zero :: "jsnum \<Rightarrow> bool" where
  "is_zero a = (a = NZero \<or> a = Fin 0)"

definition zero_s :: "bool \<Rightarrow> jsnum" where
  "zero_s neg = (if neg then NZero else Fin 0)"

definition inf_s :: "bool \<Rightarrow> jsnum" where
  "inf_s neg = (if neg then NInf else PInf)"

fun js_neg :: "jsnum \<Rightarrow> jsnum" where
  "js_neg NaN = NaN"
| "js_neg NInf = PInf"
| "js_neg PInf = NInf"
| "js_neg NZero = Fin 0"
| "js_neg (Fin q) = (if q = 0 then NZero else Fin (- q))"

definition js_add :: "jsnum \<Rightarrow> jsnum \<Rightarrow> jsnum" where
  "js_add a b =
     (if a = NaN \<or> b = NaN then NaN
      else if is_inf a then (if is_inf b \<and> a \<noteq> b then NaN else a)
      else if is_inf b then b
      else if a = NZero \<and> b = NZero then NZero
      else Fin (mag a + mag b))"

definition js_sub :: "jsnum \<Rightarrow> jsnum \<Rightarrow> jsnum" where
  "js_sub a b = js_add a (js_neg b)"

definition js_mul :: "jsnum \<Rightarrow> jsnum \<Rightarrow> jsnum" where
  "js_mul a b =
     (if a = NaN \<or> b = NaN then NaN
      else if is_inf a \<or> is_inf b then
        (if is_zero a \<or> is_zero b then NaN else inf_s (sign_neg a \<noteq> sign_neg b))
      else if is_zero a \<or> is_zero b then zero_s (sign_neg a \<noteq> sign_neg b)
      else Fin (mag a * mag b))"

definition js_div :: "jsnum \<Rightarrow> jsnum \<Rightarrow> jsnum" where
  "js_div a b =
     (if a = NaN \<or> b = NaN then NaN
      else if is_inf a then (if is_inf b then NaN else inf_s (sign_neg a \<noteq> sign_neg b))
      else if is_inf b then zero_s (sign_neg a \<noteq> sign_neg b)
      else if is_zero b then (if is_zero a then NaN else inf_s (sign_neg a \<noteq> sign_neg b))
      else if is_zero a then zero_s (sign_neg a \<noteq> sign_neg b)
      else Fin (mag a / mag b))"

text \<open>\<open>a < b\<close>: false as soon as one side is NaN; the two zeros compare equal.\<close>

fun js_lt :: "jsnum \<Rightarrow> jsnum \<Rightarrow> bool" where
  "js_lt NaN _ = False"
| "js_lt _ NaN = False"
| "js_lt PInf _ = False"
| "js_lt _ NInf = False"
| "js_lt NInf _ = True"
| "js_lt _ PInf = True"
| "js_lt a b = (mag a < mag b)"

fun js_le :: "jsnum \<Rightarrow> jsnum \<Rightarrow> bool" where
  "js_le NaN _ = False"
| "js_le _ NaN = False"
| "js_le NInf _ = True"
| "js_le _ PInf = True"
| "js_le PInf _ = False"
| "js_le _ NInf = False"
| "js_le a b = (mag a \<le> mag b)"

definition js_gt :: "jsnum \<Rightarrow> jsnum \<Rightarrow> bool" where
  "js_gt a b = js_lt b a"

definition js_ge :: "jsnum \<Rightarrow> jsnum \<Rightarrow> bool" where
  "js_ge a b = js_le b a"

text \<open>\<open>a === b\<close> on numbers: NaN differs from itself, the two zeros are equal.\<close>

definition js_num_eq :: "jsnum \<Rightarrow> jsnum \<Rightarrow> bool" where
  "js_num_eq a b = (a \<noteq> NaN \<and> b \<noteq> NaN \<and> (a = b \<or> (is_zero a \<and> is_zero b)))"

fun Math_abs :: "jsnum \<Rightarrow> jsnum" where
  "Math_abs NaN = NaN"
| "Math_abs NInf = PInf"
| "Math_abs PInf = PInf"
| "Math_abs NZero = Fin 0"
| "Math_abs (Fin q) = Fin \<bar>q\<bar>"

definition max2 :: "jsnum \<Rightarrow> jsnum \<Rightarrow> jsnum" where
  "max2 a b =
     (if a = NaN \<or> b = NaN then NaN
      else if js_lt a b then b
      else if js_lt b a then a
      else if a = NZero then b else a)"

definition min2 :: "jsnum \<Rightarrow> jsnum \<Rightarrow> jsnum" where
  "min2 a b =
     (if a = NaN \<or> b = NaN then NaN
      else if js_lt a b then a
      else if js_lt b a then b
      else if b = NZero then b else a)"

text \<open>\<open>Math.max(...xs)\<close> and \<open>Math.min(...xs)\<close>: \<open>-Infinity\<close> and \<open>Infinity\<close> on no argument.\<close>

definition Math_max :: "jsnum list \<Rightarrow> jsnum" where
  "Math_max xs = foldl max2 NInf xs"

definition Math_min :: "jsnum list \<Rightarrow> jsnum" where
  "Math_min xs = foldl min2 PInf xs"


section \<open>JavaScript values\<close>

text \<open>
  A request body is parsed JSON. Arrays and objects carry an address, their identity:
  \<open>===\<close> and \<open>Set\<close> compare two arrays or two objects by identity, never by content.
  An object is the list of its own properties. \<open>Undefined\<close> is what reading an absent
  property yields. A body that is no JSON text makes \<open>request.json()\<close> throw, and every
  handler answers 500 then; the model starts from the parsed body.

  Two conversions of the language are not defined here but taken as parameters, so that
  every theorem holds whatever they compute: the parsing of a string as a number
  (\<open>StringToNumber\<close>) and the printing of a number (\<open>NumberToString\<close>).
\<close>

datatype js =
    Undefined
  | Null
  | Bool bool
  | Num jsnum
  | Str string
  | Arr nat "js list"
  | Obj nat "(string \<times> js) list"

record conv =
  StringToNumber :: "string \<Rightarrow> jsnum"
  NumberToString :: "jsnum \<Rightarrow> string"

datatype error = TypeError

text \<open>
  What a handler hands to \<open>NextResponse.json\<close>: the object of a successful answer, or a
  status and an error message. The printing of the object as JSON is not modelled.
\<close>

datatype 'a response = Success 'a | Failure nat string

definition nullish :: "js \<Rightarrow> bool" where
  "nullish v = (v = Undefined \<or> v = Null)"

fun join :: "string \<Rightarrow> string list \<Rightarrow> string" where
  "join sep [] = []"
| "join sep [x] = x"
| "join sep (x # y # ys) = x @ sep @ join sep (y # ys)"

text \<open>\<open>String(v)\<close>. An array prints as its elements joined by commas, \<open>null\<close> and
  \<open>undefined\<close> elements as the empty string; a plain object prints as \<open>[object Object]\<close>.\<close>

fun ToString :: "conv \<Rightarrow> js \<Rightarrow> string" where
  "ToString c Undefined = ''undefined''"
| "ToString c Null = ''null''"
| "ToString c (Bool b) = (if b then ''true'' else ''false'')"
| "ToString c (Num n) = NumberToString c n"
| "ToString c (Str s) = s"
| "ToString c (Arr a xs) =
     join '','' (map (\<lambda>x. if x = Undefined \<or> x = Null then [] else ToString c x) xs)"
| "ToString c (Obj a kvs) = ''[object Object]''"

text \<open>\<open>Number(v)\<close>, as the arithmetic and relational operators apply it to an operand.\<close>

fun ToNumber :: "conv \<Rightarrow> js \<Rightarrow> jsnum" where
  "ToNumber c Undefined = NaN"
| "ToNumber c Null = Fin 0"
| "ToNumber c (Bool b) = (if b then Fin 1 else Fin 0)"
| "ToNumber c (Num n) = n"
| "ToNumber c (Str s) = StringToNumber c s"
| "ToNumber c v = StringToNumber c (ToString c v)"

fun ToBoolean :: "js \<Rightarrow> bool" where
  "ToBoolean Undefined = False"
| "ToBoolean Null = False"
| "ToBoolean (Bool b) = b"
| "ToBoolean (Num n) = (n \<noteq> NaN \<and> \<not> is_zero n)"
| "ToBoolean (Str s) = (s \<noteq> [])"
| "ToBoolean _ = True"

text \<open>\<open>a === b\<close>.\<close>

fun strict_eq :: "js \<Rightarrow> js \<Rightarrow> bool" where
  "strict_eq Undefined Undefined = True"
| "strict_eq Null Null = True"
| "strict_eq (Bool a) (Bool b) = (a = b)"
| "strict_eq (Num a) (Num b) = js_num_eq a b"
| "strict_eq (Str a) (Str b) = (a = b)"
| "strict_eq (Arr a xs) (Arr b ys) = (a = b)"
| "strict_eq (Obj a xs) (Obj b ys) = (a = b)"
| "strict_eq _ _ = False"

text \<open>The equality of \<open>Set\<close>: as \<open>===\<close>, but NaN equals itself.\<close>

definition SameValueZero :: "js \<Rightarrow> js \<Rightarrow> bool" where
  "SameValueZero a b = (strict_eq a b \<or> (a = Num NaN \<and> b = Num NaN))"

text \<open>
  \<open>v[k]\<close> and \<open>v.k\<close> on a value that is neither \<open>null\<close> nor \<open>undefined\<close>; on those two
  the read throws a TypeError, which every caller below checks with \<open>nullish\<close> first.
  Inherited and built-in properties (\<open>length\<close>, \<open>toString\<close>, ...) are not modelled: the
  property names read by the handlers are taken not to be among them.
\<close>

fun get :: "js \<Rightarrow> string \<Rightarrow> js" where
  "get (Obj a kvs) k = (case map_of kvs k of None \<Rightarrow> Undefined | Some v \<Rightarrow> v)"
| "get _ k = Undefined"

text \<open>\<open>a || b\<close> on values.\<close>

definition js_or :: "js \<Rightarrow> js \<Rightarrow> js" where
  "js_or a b = (if ToBoolean a then a else b)"

text \<open>\<open>a || b\<close> on numbers.\<close>

definition num_or :: "jsnum \<Rightarrow> jsnum \<Rightarrow> jsnum" where
  "num_or a b = (if a \<noteq> NaN \<and> \<not> is_zero a then a else b)"

text \<open>The \<open>length\<close> of an array, as a number.\<close>

definition len :: "'a list \<Rightarrow> jsnum" where
  "len xs = Fin (of_nat (length xs))"


section \<open>Fairness analysis: \<open>src/app/api/fairness/analyze/route.ts\<close>\<close>

record GroupMetrics =
  totalCount :: nat
  approvalRate :: jsnum
  truePositiveRate :: jsnum
  falsePositiveRate :: jsnum
  precision :: jsnum

text \<open>The three row predicates that the filters of the route repeat.\<close>

definition isApproved :: "js \<Rightarrow> bool" where
  "isApproved row =
     (strict_eq (get row ''predicted'') (Num (Fin 1))
      \<or> strict_eq (get row ''approved'') (Num (Fin 1)))"

definition isActualPositive :: "js \<Rightarrow> bool" where
  "isActualPositive row =
     (strict_eq (get row ''actual'') (Num (Fin 1))
      \<or> strict_eq (get row ''loan_status'') (Num (Fin 1)))"

definition isActualNegative :: "js \<Rightarrow> bool" where
  "isActualNegative row =
     (strict_eq (get row ''actual'') (Num (Fin 0))
      \<or> strict_eq (get row ''loan_status'') (Num (Fin 0)))"

text \<open>
  \<open>calculateGroupMetrics\<close>. Its first filter reads \<open>row[groupKey]\<close> on every row of
  \<open>data\<close>, so it throws a TypeError exactly when some row is \<open>null\<close> or \<open>undefined\<close>.
\<close>

definition calculateGroupMetrics :: "js list \<Rightarrow> string \<Rightarrow> js \<Rightarrow> error + GroupMetrics" where
  "calculateGroupMetrics data groupKey groupValue =
     (if list_ex nullish data then Inl TypeError
      else
        let groupData = filter (\<lambda>row. strict_eq (get row groupKey) groupValue) data;
            totalCount = length groupData
        in
        if totalCount = 0 then
          Inr \<lparr>totalCount = 0, approvalRate = Fin 0, truePositiveRate = Fin 0,
               falsePositiveRate = Fin 0, precision = Fin 0\<rparr>
        else
          let approved = filter isApproved groupData;
              approvalRate = js_div (len approved) (Fin (of_nat totalCount));
              actualPositive = filter isActualPositive groupData;
              actualNegative = filter isActualNegative groupData;
              truePositives =
                length (filter (\<lambda>row. isApproved row \<and> isActualPositive row) groupData);
              falsePositives =
                length (filter (\<lambda>row. isApproved row \<and> isActualNegative row) groupData);
              truePositiveRate =
                (if length actualPositive > 0
                 then js_div (Fin (of_nat truePositives)) (len actualPositive) else Fin 0);
              falsePositiveRate =
                (if length actualNegative > 0
                 then js_div (Fin (of_nat falsePositives)) (len actualNegative) else Fin 0);
              precision =
                (if length approved > 0
                 then js_div (Fin (of_nat truePositives)) (len approved) else Fin 0)
          in Inr \<lparr>totalCount = totalCount, approvalRate = approvalRate,
                  truePositiveRate = truePositiveRate,
                  falsePositiveRate = falsePositiveRate, precision = precision\<rparr>)"

text \<open>\<open>calculateFairnessScore\<close>, on the three fields of its argument.\<close>

definition calculateFairnessScore :: "jsnum \<Rightarrow> jsnum \<Rightarrow> jsnum \<Rightarrow> jsnum" where
  "calculateFairnessScore demographicParityDifference equalOpportunityDifference disparateImpact =
     (let dpScore = Math_max [Fin 0,
            js_sub (Fin 100) (js_mul (Math_abs demographicParityDifference) (Fin 100))];
          eoScore = Math_max [Fin 0,
            js_sub (Fin 100) (js_mul (Math_abs equalOpportunityDifference) (Fin 100))];
          diScore =
            (if js_ge disparateImpact (Fin 0.8) \<and> js_le disparateImpact (Fin 1.25) then Fin 100
             else Math_max [Fin 0,
               js_sub (Fin 100) (js_mul (Math_abs (js_sub (Fin 1) disparateImpact)) (Fin 100))])
      in js_div (js_add (js_add dpScore eoScore) diScore) (Fin 3))"

text \<open>
  \<open>[...new Set(xs)]\<close>: the values in the order of their first occurrence, compared by
  \<open>SameValueZero\<close>; a set stores the negative zero as the positive one.
\<close>

definition set_add :: "js list \<Rightarrow> js \<Rightarrow> js list" where
  "set_add s v =
     (let v' = (if v = Num NZero then Num (Fin 0) else v)
      in if list_ex (SameValueZero v') s then s else s @ [v'])"

definition new_Set :: "js list \<Rightarrow> js list" where
  "new_Set xs = foldl set_add [] xs"

text \<open>
  \<open>obj[k] = v\<close> on a plain object: the value of an existing key is replaced where it
  stands, a new key is added at the end, and the key \<open>__proto__\<close> adds no property (it
  sets the prototype). The order in which JavaScript lists integer-like keys is not
  modelled.
\<close>

fun assign :: "string \<Rightarrow> 'v \<Rightarrow> (string \<times> 'v) list \<Rightarrow> (string \<times> 'v) list" where
  "assign k v [] = (if k = ''__proto__'' then [] else [(k, v)])"
| "assign k v ((k', v') # kvs) =
     (if k = ''__proto__'' then (k', v') # kvs
      else if k' = k then (k, v) # kvs
      else (k', v') # assign k v kvs)"

text \<open>The \<open>forEach\<close> loop that fills \<open>groupMetrics\<close>, one key \<open>String(group)\<close> per group.\<close>

fun fillGroupMetrics ::
  "conv \<Rightarrow> js list \<Rightarrow> string \<Rightarrow> js list \<Rightarrow> (string \<times> GroupMetrics) list
     \<Rightarrow> error + (string \<times> GroupMetrics) list" where
  "fillGroupMetrics c data key [] groupMetrics = Inr groupMetrics"
| "fillGroupMetrics c data key (grp # groups) groupMetrics =
     (case calculateGroupMetrics data key grp of
        Inl e \<Rightarrow> Inl e
      | Inr m \<Rightarrow> fillGroupMetrics c data key groups (assign (ToString c grp) m groupMetrics))"

definition recommend :: "jsnum \<Rightarrow> jsnum \<Rightarrow> jsnum \<Rightarrow> string list" where
  "recommend disparateImpact demographicParityDifference equalOpportunityDifference =
     (let r1 = (if js_lt disparateImpact (Fin 0.8)
                then [''Disparate impact detected: Approval rate ratio is below 80% threshold'',
                      ''Consider reviewing feature selection and model training data for bias'']
                else []);
          r2 = (if js_gt demographicParityDifference (Fin 0.1)
                then r1 @ [''Significant demographic parity gap detected (>10%)'',
                           ''Implement fairness constraints during model training'']
                else r1);
          r3 = (if js_gt equalOpportunityDifference (Fin 0.1)
                then r2 @ [''Equal opportunity violation: Different TPR across groups'',
                           ''Apply post-processing techniques to equalize TPR'']
                else r2)
      in if length r3 = 0
         then [''Model shows acceptable fairness metrics across protected groups'',
               ''Continue monitoring for fairness in production'']
         else r3)"

record AgeMetrics =
  count :: nat
  ageApprovalRate :: jsnum

definition ageBetween :: "conv \<Rightarrow> rat \<Rightarrow> rat \<Rightarrow> js \<Rightarrow> bool" where
  "ageBetween c lo hi r =
     (js_ge (ToNumber c (get r ''age'')) (Fin lo) \<and> js_le (ToNumber c (get r ''age'')) (Fin hi))"

text \<open>The age breakdown: one entry per non-empty age group.\<close>

definition ageMetrics :: "conv \<Rightarrow> js list \<Rightarrow> (string \<times> AgeMetrics) list" where
  "ageMetrics c data =
     (let ageGroups =
            [(''18-30'', filter (ageBetween c 18 30) data),
             (''31-45'', filter (ageBetween c 31 45) data),
             (''46-60'', filter (ageBetween c 46 60) data),
             (''60+'', filter (\<lambda>r. js_gt (ToNumber c (get r ''age'')) (Fin 60)) data)]
      in map (\<lambda>(ageGroup, groupData).
                (ageGroup,
                 \<lparr>count = length groupData,
                  ageApprovalRate = js_div (len (filter isApproved groupData)) (len groupData)\<rparr>))
           (filter (\<lambda>(ageGroup, groupData). length groupData > 0) ageGroups))"

datatype BiasEntry =
    AttributeBias "(string \<times> GroupMetrics) list" jsnum jsnum jsnum
  | AgeBias "(string \<times> AgeMetrics) list"

record FairnessMetrics =
  demographicParity :: jsnum
  demographicParityDifference :: jsnum
  equalOpportunity :: jsnum
  equalOpportunityDifference :: jsnum
  disparateImpact :: jsnum
  disparateImpactRatio :: jsnum
  statisticalParity :: jsnum

record ComplianceStatus =
  rule80Percent :: bool
  complianceDemographicParity :: bool
  complianceEqualOpportunity :: bool

record Fairness =
  overallScore :: jsnum
  metrics :: FairnessMetrics
  groupMetrics :: "(string \<times> GroupMetrics) list"
  biasAnalysis :: "(string \<times> BiasEntry) list"
  recommendations :: "string list"
  protectedAttribute :: js
  complianceStatus :: ComplianceStatus

record FairnessResponse =
  fairness :: Fairness
  timestamp :: string

text \<open>
  Lines 104 to 217 of the route: the metrics, from the filled \<open>groupMetrics\<close>. \<open>now\<close> is
  what \<open>new Date().toISOString()\<close> returns. The handler gets here with a non-empty \<open>data\<close>
  only, so \<open>data[0]\<close> is its first row.
\<close>

definition analysis ::
  "conv \<Rightarrow> string \<Rightarrow> js list \<Rightarrow> js \<Rightarrow> (string \<times> GroupMetrics) list \<Rightarrow> FairnessResponse" where
  "analysis c now data attribute filled =
     (let groupMetrics = filled;
          protectedAttribute = attribute;
          approvalRates = map approvalRate (map snd groupMetrics);
          maxApprovalRate = Math_max approvalRates;
          minApprovalRate = Math_min approvalRates;
          demographicParityDifference = js_sub maxApprovalRate minApprovalRate;
          tprValues = map truePositiveRate (map snd groupMetrics);
          maxTPR = Math_max tprValues;
          minTPR = Math_min tprValues;
          equalOpportunityDifference = js_sub maxTPR minTPR;
          disparateImpact = js_div minApprovalRate (num_or maxApprovalRate (Fin 1));
          avgApprovalRate = js_div (foldl js_add (Fin 0) approvalRates) (len approvalRates);
          statisticalParityDifference =
            Math_max (map (\<lambda>rate. Math_abs (js_sub rate avgApprovalRate)) approvalRates);
          fairnessScore =
            calculateFairnessScore demographicParityDifference equalOpportunityDifference
              disparateImpact;
          biasAnalysis0 =
            [(ToString c protectedAttribute,
              AttributeBias groupMetrics (js_sub (Fin 1) demographicParityDifference)
                (js_sub (Fin 1) equalOpportunityDifference) disparateImpact)];
          biasAnalysis1 =
            (case data of
               [] \<Rightarrow> biasAnalysis0
             | row # rest \<Rightarrow>
                 if ToBoolean (get row ''age'')
                 then assign ''age'' (AgeBias (ageMetrics c data)) biasAnalysis0
                 else biasAnalysis0)
      in \<lparr>fairness =
            \<lparr>overallScore = fairnessScore,
             metrics =
               \<lparr>demographicParity = js_sub (Fin 1) demographicParityDifference,
                demographicParityDifference = demographicParityDifference,
                equalOpportunity = js_sub (Fin 1) equalOpportunityDifference,
                equalOpportunityDifference = equalOpportunityDifference,
                disparateImpact = disparateImpact,
                disparateImpactRatio = disparateImpact,
                statisticalParity = js_sub (Fin 1) statisticalParityDifference\<rparr>,
             groupMetrics = groupMetrics,
             biasAnalysis = biasAnalysis1,
             recommendations =
               recommend disparateImpact demographicParityDifference equalOpportunityDifference,
             protectedAttribute = protectedAttribute,
             complianceStatus =
               \<lparr>rule80Percent = js_ge disparateImpact (Fin 0.8),
                complianceDemographicParity = js_le demographicParityDifference (Fin 0.1),
                complianceEqualOpportunity = js_le equalOpportunityDifference (Fin 0.1)\<rparr>\<rparr>,
          timestamp = now\<rparr>)"

text \<open>
  The handler, on the parsed body. Destructuring a \<open>null\<close> body throws, and so does
  \<open>row[protectedAttribute]\<close> on a \<open>null\<close> row; the \<open>catch\<close> block answers 500.
\<close>

definition fairness_POST :: "conv \<Rightarrow> string \<Rightarrow> js \<Rightarrow> FairnessResponse response" where
  "fairness_POST c now body =
     (if nullish body then Failure 500 ''Fairness analysis failed''
      else
        let data = get body ''data'';
            protectedAttribute =
              (if get body ''protectedAttribute'' = Undefined then Str ''gender''
               else get body ''protectedAttribute'')
        in
        case data of
          Arr a rows \<Rightarrow>
            if length rows = 0 then Failure 400 ''Invalid data provided''
            else if list_ex nullish rows then Failure 500 ''Fairness analysis failed''
            else
              let uniqueGroups =
                    new_Set (map (\<lambda>row. get row (ToString c protectedAttribute)) rows)
              in
              if length uniqueGroups < 2 then
                Failure 400 ''Need at least 2 groups for fairness analysis''
              else
                (case fillGroupMetrics c rows (ToString c protectedAttribute) uniqueGroups [] of
                   Inl e \<Rightarrow> Failure 500 ''Fairness analysis failed''
                 | Inr filled \<Rightarrow> Success (analysis c now rows protectedAttribute filled))
        | _ \<Rightarrow> Failure 400 ''Invalid data provided'')"


section \<open>Credit scoring: \<open>src/app/api/model/predict/route.ts\<close>\<close>

text \<open>
  \<open>calculateCreditScore\<close> updates \<open>probability\<close> and \<open>reasoning\<close> in eight blocks, one
  per feature. Each block is a function from the pair of the two variables to the pair
  after the block.
\<close>

type_synonym scoring = "jsnum \<times> string list"

fun creditScoreImpact :: "conv \<Rightarrow> js \<Rightarrow> scoring \<Rightarrow> scoring" where
  "creditScoreImpact c creditScore (probability, reasoning) =
     (if js_ge (ToNumber c creditScore) (Fin 750) then
        (js_add probability (Fin 0.25), reasoning @ [''Excellent credit score (750+)''])
      else if js_ge (ToNumber c creditScore) (Fin 700) then
        (js_add probability (Fin 0.18), reasoning @ [''Good credit score (700-749)''])
      else if js_ge (ToNumber c creditScore) (Fin 650) then
        (js_add probability (Fin 0.10), reasoning @ [''Fair credit score (650-699)''])
      else if js_ge (ToNumber c creditScore) (Fin 600) then
        (js_add probability (Fin 0.02), reasoning @ [''Below average credit score (600-649)''])
      else
        (js_sub probability (Fin 0.15), reasoning @ [''Poor credit score (<600)'']))"

fun incomeImpact :: "conv \<Rightarrow> js \<Rightarrow> js \<Rightarrow> scoring \<Rightarrow> scoring" where
  "incomeImpact c loanAmount income (probability, reasoning) =
     (let incomeRatio = js_div (ToNumber c loanAmount) (ToNumber c income) in
      if js_lt incomeRatio (Fin 2) then
        (js_add probability (Fin 0.15), reasoning @ [''Low loan-to-income ratio''])
      else if js_lt incomeRatio (Fin 3) then
        (js_add probability (Fin 0.08), reasoning @ [''Moderate loan-to-income ratio''])
      else if js_lt incomeRatio (Fin 4) then
        (js_sub probability (Fin 0.05), reasoning @ [''High loan-to-income ratio''])
      else
        (js_sub probability (Fin 0.12), reasoning @ [''Very high loan-to-income ratio'']))"

fun loanAmountImpact :: "conv \<Rightarrow> js \<Rightarrow> scoring \<Rightarrow> scoring" where
  "loanAmountImpact c loanAmount (probability, reasoning) =
     (if js_lt (ToNumber c loanAmount) (Fin 25000) then
        (js_add probability (Fin 0.10), reasoning @ [''Small loan amount''])
      else if js_lt (ToNumber c loanAmount) (Fin 50000) then
        (js_add probability (Fin 0.05), reasoning)
      else if js_gt (ToNumber c loanAmount) (Fin 100000) then
        (js_sub probability (Fin 0.08), reasoning @ [''Large loan amount''])
      else (probability, reasoning))"

fun debtToIncomeImpact :: "conv \<Rightarrow> js \<Rightarrow> scoring \<Rightarrow> scoring" where
  "debtToIncomeImpact c debtToIncome (probability, reasoning) =
     (if js_lt (ToNumber c debtToIncome) (Fin 0.3) then
        (js_add probability (Fin 0.08), reasoning @ [''Low debt-to-income ratio''])
      else if js_gt (ToNumber c debtToIncome) (Fin 0.5) then
        (js_sub probability (Fin 0.10), reasoning @ [''High debt-to-income ratio''])
      else (probability, reasoning))"

fun employmentLengthImpact :: "conv \<Rightarrow> js \<Rightarrow> scoring \<Rightarrow> scoring" where
  "employmentLengthImpact c employmentLength (probability, reasoning) =
     (if js_ge (ToNumber c employmentLength) (Fin 5) then
        (js_add probability (Fin 0.06), reasoning @ [''Stable employment history (5+ years)''])
      else if js_ge (ToNumber c employmentLength) (Fin 2) then
        (js_add probability (Fin 0.03), reasoning)
      else
        (js_sub probability (Fin 0.04), reasoning @ [''Short employment history'']))"

fun ageImpact :: "conv \<Rightarrow> js \<Rightarrow> scoring \<Rightarrow> scoring" where
  "ageImpact c age (probability, reasoning) =
     (if js_ge (ToNumber c age) (Fin 35) \<and> js_le (ToNumber c age) (Fin 55) then
        (js_add probability (Fin 0.05), reasoning @ [''Optimal age range for credit''])
      else if js_lt (ToNumber c age) (Fin 25) then
        (js_sub probability (Fin 0.03), reasoning)
      else (probability, reasoning))"

fun homeOwnershipImpact :: "js \<Rightarrow> scoring \<Rightarrow> scoring" where
  "homeOwnershipImpact homeOwnership (probability, reasoning) =
     (if strict_eq homeOwnership (Str ''own'') then
        (js_add probability (Fin 0.04), reasoning @ [''Home ownership''])
      else if strict_eq homeOwnership (Str ''mortgage'') then
        (js_add probability (Fin 0.02), reasoning)
      else (probability, reasoning))"

fun derogatoryImpact :: "conv \<Rightarrow> js \<Rightarrow> scoring \<Rightarrow> scoring" where
  "derogatoryImpact c derogatory (probability, reasoning) =
     (if js_gt (ToNumber c derogatory) (Fin 0) then
        (js_sub probability (js_mul (Fin 0.10) (ToNumber c derogatory)),
         reasoning @ [ToString c derogatory @ '' derogatory mark(s)''])
      else (probability, reasoning))"

text \<open>
  The default of the destructuring: \<open>debtToIncome = loanAmount / (income || 1)\<close> when the
  field is absent.
\<close>

definition debtToIncomeOf :: "conv \<Rightarrow> js \<Rightarrow> js" where
  "debtToIncomeOf c features =
     (if get features ''debtToIncome'' = Undefined
      then Num (js_div (ToNumber c (get features ''loanAmount''))
                  (ToNumber c (js_or (get features ''income'') (Num (Fin 1)))))
      else get features ''debtToIncome'')"

definition derogatoryOf :: "js \<Rightarrow> js" where
  "derogatoryOf features =
     (if get features ''derogatory'' = Undefined then Num (Fin 0)
      else get features ''derogatory'')"

text \<open>The eight blocks in the order of the source, from the base probability 0.5.\<close>

definition scoringOf :: "conv \<Rightarrow> js \<Rightarrow> scoring" where
  "scoringOf c features =
     derogatoryImpact c (derogatoryOf features)
       (homeOwnershipImpact (get features ''homeOwnership'')
         (ageImpact c (get features ''age'')
           (employmentLengthImpact c (get features ''employmentLength'')
             (debtToIncomeImpact c (debtToIncomeOf c features)
               (loanAmountImpact c (get features ''loanAmount'')
                 (incomeImpact c (get features ''loanAmount'') (get features ''income'')
                   (creditScoreImpact c (get features ''creditScore'') (Fin 0.5, []))))))))"

record Prediction =
  approved :: bool
  probability :: jsnum
  confidence :: jsnum
  riskScore :: jsnum
  reasoning :: "string list"

text \<open>
  \<open>calculateCreditScore\<close>. \<open>random\<close> is what \<open>Math.random()\<close> returns, a number from 0
  inclusive to 1 exclusive. Destructuring \<open>null\<close> throws.
\<close>

definition calculateCreditScore :: "conv \<Rightarrow> rat \<Rightarrow> js \<Rightarrow> error + Prediction" where
  "calculateCreditScore c random features =
     (if nullish features then Inl TypeError
      else
        let scored = scoringOf c features;
            probability = Math_max [Fin 0.05, Math_min [Fin 0.95, fst scored]];
            hasAllFeatures =
              (ToBoolean (get features ''creditScore'') \<and> ToBoolean (get features ''income'')
               \<and> ToBoolean (get features ''loanAmount''));
            confidence =
              (if hasAllFeatures then js_add (Fin 0.78) (js_mul (Fin random) (Fin 0.12))
               else Fin 0.65)
        in Inr \<lparr>approved = js_gt probability (Fin 0.5),
                probability = probability,
                confidence = confidence,
                riskScore = js_mul (js_sub (Fin 1) probability) (Fin 100),
                reasoning = snd scored\<rparr>)"

record PredictShap =
  shapCreditScore :: jsnum
  shapIncome :: jsnum
  shapLoanAmount :: jsnum
  shapDebtToIncome :: jsnum
  shapEmploymentLength :: jsnum
  shapAge :: jsnum
  shapHomeOwnership :: jsnum

text \<open>The \<open>prediction\<close> object of the response: the fields of the prediction, spread, and
  three more.\<close>

record PredictionOut = Prediction +
  shapValues :: PredictShap
  modelVersion :: string
  predictionTimestamp :: string

record PredictResponse =
  predictionOut :: PredictionOut
  input :: js

text \<open>Lines 149 to 158 of the route: the contributions reported next to the prediction.\<close>

definition shapValuesOf :: "conv \<Rightarrow> js \<Rightarrow> PredictShap" where
  "shapValuesOf c features =
     \<lparr>shapCreditScore =
        (if js_ge (ToNumber c (get features ''creditScore'')) (Fin 700)
         then Fin 0.18 else Fin (- 0.12)),
      shapIncome =
        (if js_ge (ToNumber c (get features ''income'')) (Fin 60000)
         then Fin 0.12 else Fin (- 0.08)),
      shapLoanAmount =
        (if js_le (ToNumber c (get features ''loanAmount'')) (Fin 50000)
         then Fin 0.08 else Fin (- 0.10)),
      shapDebtToIncome =
        (if js_lt (js_div (ToNumber c (get features ''loanAmount''))
                     (ToNumber c (get features ''income''))) (Fin 3)
         then Fin 0.07 else Fin (- 0.09)),
      shapEmploymentLength =
        (if js_ge (ToNumber c (get features ''employmentLength'')) (Fin 3)
         then Fin 0.05 else Fin (- 0.03)),
      shapAge =
        (if js_ge (ToNumber c (get features ''age'')) (Fin 30)
            \<and> js_le (ToNumber c (get features ''age'')) (Fin 60)
         then Fin 0.04 else Fin (- 0.02)),
      shapHomeOwnership =
        (if strict_eq (get features ''homeOwnership'') (Str ''own'')
         then Fin 0.03 else Fin (- 0.01))\<rparr>"

text \<open>
  The handler, on the parsed body. Reading \<open>body.features\<close> of a \<open>null\<close> body throws; the
  \<open>catch\<close> block answers 500. \<open>features\<close> is never \<open>null\<close> past that point. \<open>now\<close> is
  what \<open>new Date().toISOString()\<close> returns.
\<close>

definition predict_POST :: "conv \<Rightarrow> rat \<Rightarrow> string \<Rightarrow> js \<Rightarrow> PredictResponse response" where
  "predict_POST c random now body =
     (if nullish body then Failure 500 ''Prediction failed''
      else
        let features = js_or (get body ''features'') body in
        if \<not> ToBoolean (get features ''creditScore'') \<or> \<not> ToBoolean (get features ''income'')
           \<or> \<not> ToBoolean (get features ''loanAmount'')
        then Failure 400 ''Missing required fields: creditScore, income, loanAmount''
        else
          case calculateCreditScore c random features of
            Inl e \<Rightarrow> Failure 500 ''Prediction failed''
          | Inr scored \<Rightarrow>
              Success
                \<lparr>predictionOut =
                  \<lparr>approved = approved scored,
                   probability = probability scored,
                   confidence = confidence scored,
                   riskScore = riskScore scored,
                   reasoning = reasoning scored,
                   shapValues = shapValuesOf c features,
                   modelVersion = ''1.0.0'',
                   predictionTimestamp = now\<rparr>,
                 input = features\<rparr>)"

section \<open>Explanations: \<open>src/app/api/shap/explain/route.ts\<close>\<close>

record ShapValue =
  feature :: string
  featureValue :: js
  contribution :: jsnum
  displayName :: string

definition creditContribution :: "conv \<Rightarrow> js \<Rightarrow> jsnum" where
  "creditContribution c creditScore =
     (if js_ge (ToNumber c creditScore) (Fin 750) then Fin 0.22
      else if js_ge (ToNumber c creditScore) (Fin 700) then Fin 0.15
      else if js_ge (ToNumber c creditScore) (Fin 650) then Fin 0.08
      else if js_ge (ToNumber c creditScore) (Fin 600) then Fin 0.02
      else Fin (- 0.12))"

definition incomeContribution :: "conv \<Rightarrow> js \<Rightarrow> jsnum" where
  "incomeContribution c income =
     (if js_ge (ToNumber c income) (Fin 80000) then Fin 0.15
      else if js_ge (ToNumber c income) (Fin 60000) then Fin 0.10
      else if js_ge (ToNumber c income) (Fin 40000) then Fin 0.05
      else if js_ge (ToNumber c income) (Fin 30000) then Fin 0
      else Fin (- 0.08))"

definition loanContribution :: "conv \<Rightarrow> js \<Rightarrow> jsnum" where
  "loanContribution c loanAmount =
     (if js_le (ToNumber c loanAmount) (Fin 25000) then Fin 0.08
      else if js_le (ToNumber c loanAmount) (Fin 50000) then Fin 0.04
      else if js_le (ToNumber c loanAmount) (Fin 75000) then Fin 0
      else if js_le (ToNumber c loanAmount) (Fin 100000) then Fin (- 0.05)
      else Fin (- 0.10))"

definition dtiContribution :: "conv \<Rightarrow> js \<Rightarrow> jsnum" where
  "dtiContribution c debtToIncome =
     (if js_lt (ToNumber c debtToIncome) (Fin 2) then Fin 0.10
      else if js_lt (ToNumber c debtToIncome) (Fin 3) then Fin 0.05
      else if js_lt (ToNumber c debtToIncome) (Fin 4) then Fin (- 0.03)
      else Fin (- 0.12))"

definition empContribution :: "conv \<Rightarrow> js \<Rightarrow> jsnum" where
  "empContribution c employmentLength =
     (if js_ge (ToNumber c employmentLength) (Fin 10) then Fin 0.08
      else if js_ge (ToNumber c employmentLength) (Fin 5) then Fin 0.06
      else if js_ge (ToNumber c employmentLength) (Fin 2) then Fin 0.03
      else if js_ge (ToNumber c employmentLength) (Fin 1) then Fin 0
      else Fin (- 0.04))"

definition ageContribution :: "conv \<Rightarrow> js \<Rightarrow> jsnum" where
  "ageContribution c age =
     (if js_ge (ToNumber c age) (Fin 35) \<and> js_le (ToNumber c age) (Fin 55) then Fin 0.06
      else if js_ge (ToNumber c age) (Fin 25) \<and> js_lt (ToNumber c age) (Fin 35) then Fin 0.03
      else if js_ge (ToNumber c age) (Fin 55) \<and> js_le (ToNumber c age) (Fin 65) then Fin 0.02
      else if js_lt (ToNumber c age) (Fin 25) then Fin (- 0.03)
      else Fin (- 0.02))"

definition homeContribution :: "js \<Rightarrow> jsnum" where
  "homeContribution homeOwnership =
     (if strict_eq homeOwnership (Str ''own'') then Fin 0.05
      else if strict_eq homeOwnership (Str ''mortgage'') then Fin 0.02
      else Fin 0)"

definition derogContribution :: "conv \<Rightarrow> js \<Rightarrow> jsnum" where
  "derogContribution c derogatory =
     (if js_gt (ToNumber c derogatory) (Fin 0)
      then js_mul (Fin (- 0.10)) (ToNumber c derogatory)
      else Fin 0.02)"

text \<open>
  The comparator of the final \<open>sort\<close>, and the sort. \<open>Array.prototype.sort\<close> is stable and
  this comparator orders by decreasing absolute contribution; a stable insertion sort
  computes the same array.
\<close>

definition shapCompare :: "ShapValue \<Rightarrow> ShapValue \<Rightarrow> jsnum" where
  "shapCompare a b = js_sub (Math_abs (contribution b)) (Math_abs (contribution a))"

fun insertShap :: "ShapValue \<Rightarrow> ShapValue list \<Rightarrow> ShapValue list" where
  "insertShap x [] = [x]"
| "insertShap x (y # ys) =
     (if js_gt (shapCompare x y) (Fin 0) then y # insertShap x ys else x # y # ys)"

definition sortShap :: "ShapValue list \<Rightarrow> ShapValue list" where
  "sortShap xs = foldr insertShap xs []"

text \<open>\<open>calculateShapValues\<close>. Its second parameter is not read by the body.\<close>

definition calculateShapValues :: "conv \<Rightarrow> js \<Rightarrow> js \<Rightarrow> error + ShapValue list" where
  "calculateShapValues c features prediction =
     (if nullish features then Inl TypeError
      else
        let creditScore = get features ''creditScore'';
            income = get features ''income'';
            loanAmount = get features ''loanAmount'';
            employmentLength = get features ''employmentLength'';
            age = get features ''age'';
            homeOwnership = get features ''homeOwnership'';
            debtToIncome = debtToIncomeOf c features;
            derogatory = derogatoryOf features
        in Inr (sortShap
          [\<lparr>feature = ''creditScore'', featureValue = creditScore,
            contribution = creditContribution c creditScore, displayName = ''Credit Score''\<rparr>,
           \<lparr>feature = ''income'', featureValue = income,
            contribution = incomeContribution c income, displayName = ''Annual Income''\<rparr>,
           \<lparr>feature = ''loanAmount'', featureValue = loanAmount,
            contribution = loanContribution c loanAmount, displayName = ''Loan Amount''\<rparr>,
           \<lparr>feature = ''debtToIncome'', featureValue = debtToIncome,
            contribution = dtiContribution c debtToIncome,
            displayName = ''Debt-to-Income Ratio''\<rparr>,
           \<lparr>feature = ''employmentLength'', featureValue = employmentLength,
            contribution = empContribution c employmentLength,
            displayName = ''Employment Length''\<rparr>,
           \<lparr>feature = ''age'', featureValue = age,
            contribution = ageContribution c age, displayName = ''Age''\<rparr>,
           \<lparr>feature = ''homeOwnership'', featureValue = homeOwnership,
            contribution = homeContribution homeOwnership, displayName = ''Home Ownership''\<rparr>,
           \<lparr>feature = ''derogatory'', featureValue = derogatory,
            contribution = derogContribution c derogatory,
            displayName = ''Derogatory Marks''\<rparr>]))"

record FeatureImportance =
  importanceFeature :: string
  importance :: jsnum
  description :: string

definition generateGlobalImportance :: "FeatureImportance list" where
  "generateGlobalImportance =
     [\<lparr>importanceFeature = ''Credit Score'', importance = Fin 0.28,
       description = ''Primary indicator of creditworthiness''\<rparr>,
      \<lparr>importanceFeature = ''Annual Income'', importance = Fin 0.19,
       description = ''Ability to repay the loan''\<rparr>,
      \<lparr>importanceFeature = ''Loan Amount'', importance = Fin 0.15,
       description = ''Risk exposure level''\<rparr>,
      \<lparr>importanceFeature = ''Debt-to-Income'', importance = Fin 0.12,
       description = ''Existing financial obligations''\<rparr>,
      \<lparr>importanceFeature = ''Employment Length'', importance = Fin 0.09,
       description = ''Income stability indicator''\<rparr>,
      \<lparr>importanceFeature = ''Age'', importance = Fin 0.08,
       description = ''Life stage and experience''\<rparr>,
      \<lparr>importanceFeature = ''Home Ownership'', importance = Fin 0.05,
       description = ''Asset ownership status''\<rparr>,
      \<lparr>importanceFeature = ''Credit Lines'', importance = Fin 0.03,
       description = ''Credit management history''\<rparr>,
      \<lparr>importanceFeature = ''Derogatory Marks'', importance = Fin 0.01,
       description = ''Negative credit events''\<rparr>]"

record Interpretation =
  decision :: string
  interpretationConfidence :: jsnum
  mainFactors :: "string list"
  interpretationReasoning :: string

record Individual =
  baseValue :: jsnum
  explainedBy :: "ShapValue list"
  finalPrediction :: jsnum
  interpreted :: Interpretation
  explainedFeatures :: js
  waterfallData :: "(string \<times> jsnum) list"

datatype Explanation =
    GlobalExplanation "FeatureImportance list" string nat
  | IndividualExplanation Individual

text \<open>Lines 182 to 225 of the route: the explanation, from the sorted contributions.\<close>

definition explain :: "js \<Rightarrow> ShapValue list \<Rightarrow> Individual" where
  "explain features svs =
     (let baseValue = Fin 0.5;
          totalContribution = foldl (\<lambda>sum sv. js_add sum (contribution sv)) (Fin 0) svs;
          finalPrediction =
            Math_max [Fin 0.05, Math_min [Fin 0.95, js_add baseValue totalContribution]];
          topPositive =
            map displayName (take 3 (filter (\<lambda>sv. js_gt (contribution sv) (Fin 0)) svs));
          topNegative =
            map displayName (take 3 (filter (\<lambda>sv. js_lt (contribution sv) (Fin 0)) svs))
      in \<lparr>baseValue = baseValue,
          explainedBy = svs,
          finalPrediction = finalPrediction,
          interpreted =
            \<lparr>decision = (if js_gt finalPrediction (Fin 0.5) then ''Approved'' else ''Rejected''),
             interpretationConfidence =
               js_mul (Math_abs (js_sub finalPrediction (Fin 0.5))) (Fin 2),
             mainFactors = (if length topPositive > 0 then topPositive else topNegative),
             interpretationReasoning =
               (if js_gt finalPrediction (Fin 0.5)
                then ''Strong positive indicators: '' @ join '', '' topPositive
                else ''Key concerns: '' @ join '', '' topNegative)\<rparr>,
          explainedFeatures = features,
          waterfallData =
            [(''Base Value'', baseValue)]
            @ map (\<lambda>sv. (displayName sv, contribution sv)) svs
            @ [(''Final Prediction'', finalPrediction)]\<rparr>)"

text \<open>
  The handler, on the parsed body. Destructuring a \<open>null\<close> body throws; the \<open>catch\<close>
  block answers 500.
\<close>

definition shap_POST :: "conv \<Rightarrow> js \<Rightarrow> Explanation response" where
  "shap_POST c body =
     (if nullish body then Failure 500 ''Explanation generation failed''
      else
        let features = get body ''features'';
            prediction = get body ''prediction'';
            type = (if get body ''type'' = Undefined then Str ''individual''
                    else get body ''type'')
        in
        if strict_eq type (Str ''global'') then
          Success (GlobalExplanation generateGlobalImportance ''Random Forest Classifier''
                     (length generateGlobalImportance))
        else if \<not> ToBoolean features then
          Failure 400 ''Features required for individual explanation''
        else
          let predictionValue = js_or prediction (Num (Fin 0.5)) in
          case calculateShapValues c features predictionValue of
            Inl e \<Rightarrow> Failure 500 ''Explanation generation failed''
          | Inr svs \<Rightarrow> Success (IndividualExplanation (explain features svs)))"

section \<open>Specification-side notions\<close>

text \<open>A finite number of the interval from 0 to 1.\<close>

definition unit_interval :: "jsnum \<Rightarrow> bool" where
  "unit_interval x = (case x of Fin q \<Rightarrow> 0 \<le> q \<and> q \<le> 1 | _ \<Rightarrow> False)"

text \<open>A quotient of two counts that is 0 when the denominator is 0.\<close>

definition guarded_ratio :: "nat \<Rightarrow> nat \<Rightarrow> jsnum" where
  "guarded_ratio n d = (if d = 0 then Fin 0 else Fin (of_nat n / of_nat d))"

text \<open>The rows of a group: those whose \<open>groupKey\<close> field is the group's value.\<close>

definition groupRows :: "js list \<Rightarrow> string \<Rightarrow> js \<Rightarrow> js list" where
  "groupRows data groupKey groupValue =
     filter (\<lambda>row. strict_eq (get row groupKey) groupValue) data"

text \<open>
  A conversion table for the examples. No example below converts between strings and
  numbers, so no result depends on it.
\<close>

definition conv0 :: conv where
  "conv0 = \<lparr>StringToNumber = (\<lambda>s. NaN), NumberToString = (\<lambda>n. [])\<rparr>"

text \<open>Clamping to the interval from 0.05 to 0.95.\<close>

definition clamp :: "jsnum \<Rightarrow> jsnum" where
  "clamp x = (if js_lt x (Fin 0.05) then Fin 0.05 else if js_gt x (Fin 0.95) then Fin 0.95 else x)"

text \<open>
  The credit score as the claims describe it: the base value 0.5, seven constants each
  selected by the thresholds of one feature, and 0.10 per derogatory mark.
\<close>

definition creditScoreTerm :: "conv \<Rightarrow> js \<Rightarrow> rat" where
  "creditScoreTerm c features =
     (let creditScore = ToNumber c (get features ''creditScore'') in
      if js_ge creditScore (Fin 750) then 0.25
      else if js_ge creditScore (Fin 700) then 0.18
      else if js_ge creditScore (Fin 650) then 0.10
      else if js_ge creditScore (Fin 600) then 0.02
      else - 0.15)"

definition incomeTerm :: "conv \<Rightarrow> js \<Rightarrow> rat" where
  "incomeTerm c features =
     (let incomeRatio =
            js_div (ToNumber c (get features ''loanAmount'')) (ToNumber c (get features ''income''))
      in if js_lt incomeRatio (Fin 2) then 0.15
         else if js_lt incomeRatio (Fin 3) then 0.08
         else if js_lt incomeRatio (Fin 4) then - 0.05
         else - 0.12)"

definition loanAmountTerm :: "conv \<Rightarrow> js \<Rightarrow> rat" where
  "loanAmountTerm c features =
     (let loanAmount = ToNumber c (get features ''loanAmount'') in
      if js_lt loanAmount (Fin 25000) then 0.10
      else if js_lt loanAmount (Fin 50000) then 0.05
      else if js_gt loanAmount (Fin 100000) then - 0.08
      else 0)"

definition debtToIncomeTerm :: "conv \<Rightarrow> js \<Rightarrow> rat" where
  "debtToIncomeTerm c features =
     (let debtToIncome = ToNumber c (debtToIncomeOf c features) in
      if js_lt debtToIncome (Fin 0.3) then 0.08
      else if js_gt debtToIncome (Fin 0.5) then - 0.10
      else 0)"

definition employmentLengthTerm :: "conv \<Rightarrow> js \<Rightarrow> rat" where
  "employmentLengthTerm c features =
     (let employmentLength = ToNumber c (get features ''employmentLength'') in
      if js_ge employmentLength (Fin 5) then 0.06
      else if js_ge employmentLength (Fin 2) then 0.03
      else - 0.04)"

definition ageTerm :: "conv \<Rightarrow> js \<Rightarrow> rat" where
  "ageTerm c features =
     (let age = ToNumber c (get features ''age'') in
      if js_ge age (Fin 35) \<and> js_le age (Fin 55) then 0.05
      else if js_lt age (Fin 25) then - 0.03
      else 0)"

definition homeOwnershipTerm :: "js \<Rightarrow> rat" where
  "homeOwnershipTerm features =
     (if strict_eq (get features ''homeOwnership'') (Str ''own'') then 0.04
      else if strict_eq (get features ''homeOwnership'') (Str ''mortgage'') then 0.02
      else 0)"

definition derogatoryTerm :: "conv \<Rightarrow> js \<Rightarrow> jsnum" where
  "derogatoryTerm c features =
     (let derogatory = ToNumber c (derogatoryOf features) in
      if js_gt derogatory (Fin 0) then js_mul (Fin 0.10) derogatory else Fin 0)"

definition constantsSum :: "conv \<Rightarrow> js \<Rightarrow> rat" where
  "constantsSum c features =
     0.5 + creditScoreTerm c features + incomeTerm c features + loanAmountTerm c features
       + debtToIncomeTerm c features + employmentLengthTerm c features + ageTerm c features
       + homeOwnershipTerm features"

definition weightedSum :: "conv \<Rightarrow> js \<Rightarrow> jsnum" where
  "weightedSum c features = js_sub (Fin (constantsSum c features)) (derogatoryTerm c features)"

text \<open>The features that the prediction handler reads: \<open>body.features || body\<close>.\<close>

definition featuresOf :: "js \<Rightarrow> js" where
  "featuresOf body = js_or (get body ''features'') body"

text \<open>The values that count as false in a condition.\<close>

definition falsy :: "js \<Rightarrow> bool" where
  "falsy v =
     (v = Undefined \<or> v = Null \<or> v = Bool False \<or> v = Num NaN \<or> v = Num (Fin 0)
      \<or> v = Num NZero \<or> v = Str [])"

text \<open>A response of the prediction handler without its confidence and its timestamp.\<close>

definition withoutChance :: "PredictResponse response \<Rightarrow> PredictResponse response" where
  "withoutChance r =
     (case r of
        Success resp \<Rightarrow>
          Success (resp\<lparr>predictionOut :=
            (predictionOut resp)\<lparr>confidence := Fin 0, predictionTimestamp := []\<rparr>\<rparr>)
      | Failure status msg \<Rightarrow> Failure status msg)"

text \<open>Two request bodies for the examples.\<close>

definition applicant :: js where
  "applicant = Obj 0
     [(''creditScore'', Num (Fin 800)), (''income'', Num (Fin 100000)),
      (''loanAmount'', Num (Fin 10000)), (''employmentLength'', Num (Fin 10)),
      (''age'', Num (Fin 40)), (''homeOwnership'', Str ''own'')]"


text \<open>The \<open>type\<close> of an explanation request, \<open>individual\<close> when the body gives none.\<close>

definition requestType :: "js \<Rightarrow> js" where
  "requestType body =
     (if get body ''type'' = Undefined then Str ''individual'' else get body ''type'')"

text \<open>The sum of contributions each of which is a finite number or \<open>-Infinity\<close>.\<close>

definition contributionsSum :: "jsnum list \<Rightarrow> jsnum" where
  "contributionsSum xs = (if NInf \<in> set xs then NInf else Fin (sum_list (map mag xs)))"

text \<open>The contribution of a feature, from the name of the feature and its value alone.\<close>

definition contributionOf :: "conv \<Rightarrow> string \<Rightarrow> js \<Rightarrow> jsnum" where
  "contributionOf c name v =
     (if name = ''creditScore'' then creditContribution c v
      else if name = ''income'' then incomeContribution c v
      else if name = ''loanAmount'' then loanContribution c v
      else if name = ''debtToIncome'' then dtiContribution c v
      else if name = ''employmentLength'' then empContribution c v
      else if name = ''age'' then ageContribution c v
      else if name = ''homeOwnership'' then homeContribution v
      else derogContribution c v)"

text \<open>The constants that \<open>calculateShapValues\<close> assigns.\<close>

definition hardcoded :: "rat set" where
  "hardcoded = {0.22, 0.15, 0.10, 0.08, 0.06, 0.05, 0.04, 0.03, 0.02, 0,
                - 0.02, - 0.03, - 0.04, - 0.05, - 0.08, - 0.10, - 0.12}"

text \<open>Features with \<open>n\<close> derogatory marks and nothing else, for the examples.\<close>

definition marked :: "rat \<Rightarrow> js" where
  "marked n = Obj 0 [(''derogatory'', Num (Fin n))]"

text \<open>The contributions that a list of explanations reports for a feature.\<close>

definition contributionFor :: "string \<Rightarrow> ShapValue list \<Rightarrow> jsnum list" where
  "contributionFor name svs = map contribution (filter (\<lambda>sv. feature sv = name) svs)"

text \<open>The protected attribute of a fairness request, \<open>gender\<close> when the body gives none.\<close>

definition protectedAttributeOf :: "js \<Rightarrow> js" where
  "protectedAttributeOf body =
     (if get body ''protectedAttribute'' = Undefined then Str ''gender''
      else get body ''protectedAttribute'')"

text \<open>Data that is missing, not an array, or an empty array.\<close>

definition invalidData :: "js \<Rightarrow> bool" where
  "invalidData data = (case data of Arr a rows \<Rightarrow> rows = [] | _ \<Rightarrow> True)"

text \<open>The rows of the data.\<close>

definition rowsOf :: "js \<Rightarrow> js list" where
  "rowsOf data = (case data of Arr a rows \<Rightarrow> rows | _ \<Rightarrow> [])"

text \<open>The distinct values that the protected attribute takes among the rows, as \<open>Set\<close>
  tells them apart; a row without the attribute has the value \<open>undefined\<close>.\<close>

definition distinctValues :: "conv \<Rightarrow> js \<Rightarrow> js list" where
  "distinctValues c body =
     new_Set (map (\<lambda>row. get row (ToString c (protectedAttributeOf body)))
                (rowsOf (get body ''data'')))"

text \<open>The approval rate of a group: approved rows over rows, 0 for a group without rows.\<close>

definition groupApprovalRate :: "js list \<Rightarrow> string \<Rightarrow> js \<Rightarrow> rat" where
  "groupApprovalRate data groupKey groupValue =
     (let g = groupRows data groupKey groupValue
      in if length g = 0 then 0 else of_nat (length (filter isApproved g)) / of_nat (length g))"

text \<open>The approval rates of the groups of a request, one per distinct value.\<close>

definition groupApprovalRates :: "conv \<Rightarrow> js \<Rightarrow> rat list" where
  "groupApprovalRates c body =
     map (groupApprovalRate (rowsOf (get body ''data'')) (ToString c (protectedAttributeOf body)))
       (distinctValues c body)"




definition sameLabel :: js where
  "sameLabel = Obj 0 [(''data'', Arr 1
     [Obj 2 [(''gender'', Null), (''approved'', Num (Fin 1))],
      Obj 3 [(''gender'', Str ''null''), (''approved'', Num (Fin 0))]])]"


section \<open>Group metrics\<close>

lemma js_div_nat:
  "0 < d \<Longrightarrow> js_div (Fin (of_nat n)) (Fin (of_nat d)) = Fin (of_nat n / of_nat d)"
  by (simp add: js_div_def is_inf_def is_zero_def zero_s_def)

lemma js_div_len:
  "ys \<noteq> [] \<Longrightarrow> js_div (len xs) (len ys) = guarded_ratio (length xs) (length ys)"
  by (simp add: len_def guarded_ratio_def js_div_nat)

lemma length_filter_mono:
  "(\<And>x. P x \<Longrightarrow> Q x) \<Longrightarrow> length (filter P xs) \<le> length (filter Q xs)"
  by (induction xs) auto

lemma unit_guarded_ratio: "n \<le> d \<Longrightarrow> unit_interval (guarded_ratio n d)"
  by (simp add: unit_interval_def guarded_ratio_def divide_le_eq)

lemma calculateGroupMetrics_throws:
  "list_ex nullish data \<Longrightarrow> calculateGroupMetrics data k v = Inl TypeError"
  by (simp add: calculateGroupMetrics_def)

lemma calculateGroupMetrics_Inr:
  assumes "\<not> list_ex nullish data"
  shows "calculateGroupMetrics data k v =
     Inr (let g = groupRows data k v in
      \<lparr>totalCount = length g,
       approvalRate = guarded_ratio (length (filter isApproved g)) (length g),
       truePositiveRate =
         guarded_ratio (length (filter (\<lambda>row. isApproved row \<and> isActualPositive row) g))
           (length (filter isActualPositive g)),
       falsePositiveRate =
         guarded_ratio (length (filter (\<lambda>row. isApproved row \<and> isActualNegative row) g))
           (length (filter isActualNegative g)),
       precision =
         guarded_ratio (length (filter (\<lambda>row. isApproved row \<and> isActualPositive row) g))
           (length (filter isApproved g))\<rparr>)"
proof (cases "groupRows data k v = []")
  case True
  with assms show ?thesis
    by (simp add: calculateGroupMetrics_def groupRows_def guarded_ratio_def)
next
  case False
  with assms show ?thesis
    unfolding calculateGroupMetrics_def groupRows_def Let_def
    by (simp add: js_div_len guarded_ratio_def len_def js_div_nat)
qed

text \<open>
  Claim C8. Whenever \<open>calculateGroupMetrics\<close> returns (it does unless a row is \<open>null\<close>, on
  which reading the group key throws), each of its four rates is the quotient of its two
  counts, taken as 0 when the denominator (group size, actual positives, actual negatives,
  approved count) is 0, and each rate is a finite number between 0 and 1: no division by
  zero, which would give an infinity or NaN, takes place.
\<close>

theorem calculateGroupMetrics_rates:
  assumes "\<not> list_ex nullish data"
  shows "\<exists>m. calculateGroupMetrics data groupKey groupValue = Inr m
    \<and> approvalRate m =
        guarded_ratio (length (filter isApproved (groupRows data groupKey groupValue)))
          (length (groupRows data groupKey groupValue))
    \<and> truePositiveRate m =
        guarded_ratio
          (length (filter (\<lambda>row. isApproved row \<and> isActualPositive row)
             (groupRows data groupKey groupValue)))
          (length (filter isActualPositive (groupRows data groupKey groupValue)))
    \<and> falsePositiveRate m =
        guarded_ratio
          (length (filter (\<lambda>row. isApproved row \<and> isActualNegative row)
             (groupRows data groupKey groupValue)))
          (length (filter isActualNegative (groupRows data groupKey groupValue)))
    \<and> precision m =
        guarded_ratio
          (length (filter (\<lambda>row. isApproved row \<and> isActualPositive row)
             (groupRows data groupKey groupValue)))
          (length (filter isApproved (groupRows data groupKey groupValue)))
    \<and> unit_interval (approvalRate m) \<and> unit_interval (truePositiveRate m)
    \<and> unit_interval (falsePositiveRate m) \<and> unit_interval (precision m)"
proof -
  let ?g = "groupRows data groupKey groupValue"
  have a: "length (filter isApproved ?g) \<le> length ?g"
    by simp
  have t: "length (filter (\<lambda>row. isApproved row \<and> isActualPositive row) ?g)
      \<le> length (filter isActualPositive ?g)"
    by (rule length_filter_mono) simp
  have f: "length (filter (\<lambda>row. isApproved row \<and> isActualNegative row) ?g)
      \<le> length (filter isActualNegative ?g)"
    by (rule length_filter_mono) simp
  have p: "length (filter (\<lambda>row. isApproved row \<and> isActualPositive row) ?g)
      \<le> length (filter isApproved ?g)"
    by (rule length_filter_mono) simp
  show ?thesis
    using unit_guarded_ratio [OF a] unit_guarded_ratio [OF t] unit_guarded_ratio [OF f]
      unit_guarded_ratio [OF p]
    by (simp add: calculateGroupMetrics_Inr [OF assms] Let_def)
qed

theorem calculateGroupMetrics_rates_witness:
  "\<not> list_ex nullish
       [Obj 1 [(''gender'', Str ''F''), (''approved'', Num (Fin 1)), (''actual'', Num (Fin 1))],
        Obj 2 [(''gender'', Str ''F''), (''approved'', Num (Fin 0)), (''actual'', Num (Fin 0))],
        Obj 3 [(''gender'', Str ''M''), (''approved'', Num (Fin 1)), (''actual'', Num (Fin 0))]]
   \<and> (\<exists>m. calculateGroupMetrics
       [Obj 1 [(''gender'', Str ''F''), (''approved'', Num (Fin 1)), (''actual'', Num (Fin 1))],
        Obj 2 [(''gender'', Str ''F''), (''approved'', Num (Fin 0)), (''actual'', Num (Fin 0))],
        Obj 3 [(''gender'', Str ''M''), (''approved'', Num (Fin 1)), (''actual'', Num (Fin 0))]]
       ''gender'' (Str ''F'') = Inr m
     \<and> approvalRate m = Fin (1 / 2) \<and> unit_interval (approvalRate m)
     \<and> unit_interval (truePositiveRate m) \<and> unit_interval (falsePositiveRate m)
     \<and> unit_interval (precision m))"
proof -
  have h: "\<not> list_ex nullish
       [Obj 1 [(''gender'', Str ''F''), (''approved'', Num (Fin 1)), (''actual'', Num (Fin 1))],
        Obj 2 [(''gender'', Str ''F''), (''approved'', Num (Fin 0)), (''actual'', Num (Fin 0))],
        Obj 3 [(''gender'', Str ''M''), (''approved'', Num (Fin 1)), (''actual'', Num (Fin 0))]]"
    by (simp add: nullish_def)
  from calculateGroupMetrics_rates [OF h, of "''gender''" "Str ''F''"]
  obtain m where m: "calculateGroupMetrics
       [Obj 1 [(''gender'', Str ''F''), (''approved'', Num (Fin 1)), (''actual'', Num (Fin 1))],
        Obj 2 [(''gender'', Str ''F''), (''approved'', Num (Fin 0)), (''actual'', Num (Fin 0))],
        Obj 3 [(''gender'', Str ''M''), (''approved'', Num (Fin 1)), (''actual'', Num (Fin 0))]]
       ''gender'' (Str ''F'') = Inr m"
    and r: "approvalRate m =
        guarded_ratio (length (filter isApproved (groupRows
       [Obj 1 [(''gender'', Str ''F''), (''approved'', Num (Fin 1)), (''actual'', Num (Fin 1))],
        Obj 2 [(''gender'', Str ''F''), (''approved'', Num (Fin 0)), (''actual'', Num (Fin 0))],
        Obj 3 [(''gender'', Str ''M''), (''approved'', Num (Fin 1)), (''actual'', Num (Fin 0))]]
          ''gender'' (Str ''F''))))
          (length (groupRows
       [Obj 1 [(''gender'', Str ''F''), (''approved'', Num (Fin 1)), (''actual'', Num (Fin 1))],
        Obj 2 [(''gender'', Str ''F''), (''approved'', Num (Fin 0)), (''actual'', Num (Fin 0))],
        Obj 3 [(''gender'', Str ''M''), (''approved'', Num (Fin 1)), (''actual'', Num (Fin 0))]]
          ''gender'' (Str ''F'')))"
    and u: "unit_interval (approvalRate m)" "unit_interval (truePositiveRate m)"
      "unit_interval (falsePositiveRate m)" "unit_interval (precision m)"
    by blast
  have "approvalRate m = Fin (1 / 2)"
    unfolding r
    by (simp add: groupRows_def guarded_ratio_def isApproved_def js_num_eq_def is_zero_def)
  with h m u show ?thesis by blast
qed

section \<open>Credit scoring\<close>

lemma js_add_Fin: "js_add (Fin a) (Fin b) = Fin (a + b)"
  by (simp add: js_add_def is_inf_def)

lemma js_sub_Fin: "js_sub (Fin a) (Fin b) = Fin (a - b)"
  by (simp add: js_sub_def js_add_def is_inf_def)

lemma creditScoreImpact_fst:
  "fst st = Fin q \<Longrightarrow>
   fst (creditScoreImpact c (get f ''creditScore'') st) = Fin (q + creditScoreTerm c f)"
  by (cases st) (simp add: creditScoreTerm_def js_add_Fin js_sub_Fin Let_def)

lemma incomeImpact_fst:
  "fst st = Fin q \<Longrightarrow>
   fst (incomeImpact c (get f ''loanAmount'') (get f ''income'') st) = Fin (q + incomeTerm c f)"
  by (cases st) (simp add: incomeTerm_def js_add_Fin js_sub_Fin Let_def)

lemma loanAmountImpact_fst:
  "fst st = Fin q \<Longrightarrow>
   fst (loanAmountImpact c (get f ''loanAmount'') st) = Fin (q + loanAmountTerm c f)"
  by (cases st) (simp add: loanAmountTerm_def js_add_Fin js_sub_Fin Let_def)

lemma debtToIncomeImpact_fst:
  "fst st = Fin q \<Longrightarrow>
   fst (debtToIncomeImpact c (debtToIncomeOf c f) st) = Fin (q + debtToIncomeTerm c f)"
  by (cases st) (simp add: debtToIncomeTerm_def js_add_Fin js_sub_Fin Let_def)

lemma employmentLengthImpact_fst:
  "fst st = Fin q \<Longrightarrow>
   fst (employmentLengthImpact c (get f ''employmentLength'') st)
     = Fin (q + employmentLengthTerm c f)"
  by (cases st) (simp add: employmentLengthTerm_def js_add_Fin js_sub_Fin Let_def)

lemma ageImpact_fst:
  "fst st = Fin q \<Longrightarrow> fst (ageImpact c (get f ''age'') st) = Fin (q + ageTerm c f)"
  by (cases st) (simp add: ageTerm_def js_add_Fin js_sub_Fin Let_def)

lemma homeOwnershipImpact_fst:
  "fst st = Fin q \<Longrightarrow>
   fst (homeOwnershipImpact (get f ''homeOwnership'') st) = Fin (q + homeOwnershipTerm f)"
  by (cases st) (simp add: homeOwnershipTerm_def js_add_Fin js_sub_Fin)

lemma derogatoryImpact_fst:
  "fst st = Fin q \<Longrightarrow>
   fst (derogatoryImpact c (derogatoryOf f) st) = js_sub (Fin q) (derogatoryTerm c f)"
  by (cases st) (simp add: derogatoryTerm_def js_sub_Fin Let_def)

lemma scoringOf_fst: "fst (scoringOf c f) = weightedSum c f"
proof -
  have "fst (Fin 0.5, [] :: string list) = Fin 0.5" by simp
  note s1 = creditScoreImpact_fst [OF this, of c f]
  note s2 = incomeImpact_fst [OF s1]
  note s3 = loanAmountImpact_fst [OF s2]
  note s4 = debtToIncomeImpact_fst [OF s3]
  note s5 = employmentLengthImpact_fst [OF s4]
  note s6 = ageImpact_fst [OF s5]
  note s7 = homeOwnershipImpact_fst [OF s6]
  note s8 = derogatoryImpact_fst [OF s7]
  show ?thesis
    unfolding scoringOf_def weightedSum_def constantsSum_def by (rule s8)
qed

lemma Math_clamp: "Math_max [Fin 0.05, Math_min [Fin 0.95, x]] = clamp x"
  by (cases x) (auto simp: Math_max_def Math_min_def max2_def min2_def clamp_def js_gt_def)

lemma js_gt_zero_cases: "js_gt d (Fin 0) \<Longrightarrow> (\<exists>q. d = Fin q \<and> 0 < q) \<or> d = PInf"
  by (cases d) (auto simp: js_gt_def)

lemma derogatoryTerm_cases:
  "(\<exists>q. derogatoryTerm c f = Fin q \<and> 0 \<le> q) \<or> derogatoryTerm c f = PInf"
proof (cases "js_gt (ToNumber c (derogatoryOf f)) (Fin 0)")
  case True
  from js_gt_zero_cases [OF True] show ?thesis
  proof
    assume "\<exists>q. ToNumber c (derogatoryOf f) = Fin q \<and> 0 < q"
    then obtain q where q: "ToNumber c (derogatoryOf f) = Fin q" "0 < q" by blast
    with True have "derogatoryTerm c f = Fin (0.10 * q)"
      by (simp add: derogatoryTerm_def js_mul_def is_inf_def is_zero_def)
    with q show ?thesis by (intro disjI1 exI [of _ "0.10 * q"]) simp
  next
    assume "ToNumber c (derogatoryOf f) = PInf"
    with True show ?thesis
      by (simp add: derogatoryTerm_def js_mul_def is_inf_def is_zero_def inf_s_def)
  qed
next
  case False
  then show ?thesis by (simp add: derogatoryTerm_def)
qed

lemma weightedSum_cases: "(\<exists>q. weightedSum c f = Fin q) \<or> weightedSum c f = NInf"
  using derogatoryTerm_cases [of c f]
proof
  assume "\<exists>q. derogatoryTerm c f = Fin q \<and> 0 \<le> q"
  then obtain q where "derogatoryTerm c f = Fin q" by blast
  then show ?thesis by (simp add: weightedSum_def js_sub_Fin)
next
  assume "derogatoryTerm c f = PInf"
  then show ?thesis by (simp add: weightedSum_def js_sub_def js_add_def is_inf_def)
qed

lemma clamp_Fin: "clamp (Fin q) = Fin (max 0.05 (min 0.95 q))"
  by (simp add: clamp_def js_gt_def max_def min_def)

lemma clamp_NInf: "clamp NInf = Fin 0.05"
  by (simp add: clamp_def)

lemma clamp_range:
  assumes "(\<exists>q. x = Fin q) \<or> x = NInf"
  shows "\<exists>q. clamp x = Fin q \<and> 0.05 \<le> q \<and> q \<le> 0.95"
  using assms
proof
  assume "\<exists>q. x = Fin q"
  then obtain q where "x = Fin q" ..
  then have "clamp x = Fin (max 0.05 (min 0.95 q))" by (simp add: clamp_Fin)
  moreover have "(0.05::rat) \<le> max 0.05 (min 0.95 q)" "max 0.05 (min 0.95 q) \<le> (0.95::rat)"
    by (simp_all add: max_def min_def)
  ultimately show ?thesis by blast
next
  assume "x = NInf"
  then have "clamp x = Fin 0.05" by (simp add: clamp_NInf)
  then show ?thesis by (intro exI [of _ "0.05"]) simp
qed

lemma calculateCreditScore_Inr:
  "\<not> nullish f \<Longrightarrow>
   calculateCreditScore c r f =
     Inr \<lparr>approved = js_gt (clamp (weightedSum c f)) (Fin 0.5),
          probability = clamp (weightedSum c f),
          confidence =
            (if ToBoolean (get f ''creditScore'') \<and> ToBoolean (get f ''income'')
                \<and> ToBoolean (get f ''loanAmount'')
             then js_add (Fin 0.78) (js_mul (Fin r) (Fin 0.12)) else Fin 0.65),
          riskScore = js_mul (js_sub (Fin 1) (clamp (weightedSum c f))) (Fin 100),
          reasoning = snd (scoringOf c f)\<rparr>"
  unfolding calculateCreditScore_def Let_def Math_clamp scoringOf_fst by simp







text \<open>
  Claim C10. For every feature input other than \<open>null\<close> (on which the function throws),
  the probability that \<open>calculateCreditScore\<close> returns lies between 0.05 and 0.95, and the
  risk score, \<open>(1 - probability) * 100\<close>, between 5 and 95.
\<close>

theorem calculateCreditScore_range:
  assumes "\<not> nullish features"
  shows "\<exists>p q. calculateCreditScore c random features = Inr p
    \<and> probability p = Fin q \<and> 0.05 \<le> q \<and> q \<le> 0.95
    \<and> riskScore p = Fin ((1 - q) * 100) \<and> 5 \<le> (1 - q) * 100 \<and> (1 - q) * 100 \<le> 95"
proof -
  from clamp_range [OF weightedSum_cases, of c features]
  obtain q where q: "clamp (weightedSum c features) = Fin q" "0.05 \<le> q" "q \<le> 0.95"
    by blast
  have r: "js_mul (js_sub (Fin 1) (Fin q)) (Fin 100) = Fin ((1 - q) * 100)"
    using q(3) by (simp add: js_sub_Fin js_mul_def is_inf_def is_zero_def)
  have b: "5 \<le> (1 - q) * 100" "(1 - q) * 100 \<le> 95"
    using q(2,3) by simp_all
  show ?thesis
    using q r b by (simp add: calculateCreditScore_Inr [OF assms])
qed

theorem calculateCreditScore_range_witness:
  "\<not> nullish applicant
   \<and> (\<exists>p q. calculateCreditScore conv0 (1 / 2) applicant = Inr p
        \<and> probability p = Fin q \<and> 0.05 \<le> q \<and> q \<le> 0.95
        \<and> riskScore p = Fin ((1 - q) * 100) \<and> 5 \<le> (1 - q) * 100 \<and> (1 - q) * 100 \<le> 95)"
proof -
  have h: "\<not> nullish applicant" by (simp add: nullish_def applicant_def)
  from calculateCreditScore_range [OF h, of conv0 "1 / 2"] h show ?thesis by blast
qed

section \<open>The prediction handler\<close>

lemma js_mul_Fin: "0 < b \<Longrightarrow> js_mul (Fin a) (Fin b) = Fin (a * b)"
  by (simp add: js_mul_def is_inf_def is_zero_def zero_s_def)

lemma ToBoolean_falsy: "ToBoolean v = (\<not> falsy v)"
  by (cases v) (auto simp: falsy_def is_zero_def)

lemma featuresOf_not_nullish: "\<not> nullish body \<Longrightarrow> \<not> nullish (featuresOf body)"
  by (auto simp: featuresOf_def js_or_def nullish_def)

lemma predict_POST_null: "nullish body \<Longrightarrow> predict_POST c r t body = Failure 500 ''Prediction failed''"
  by (simp add: predict_POST_def)

lemma predict_POST_400:
  assumes "\<not> nullish body"
    and "falsy (get (featuresOf body) ''creditScore'') \<or> falsy (get (featuresOf body) ''income'')
      \<or> falsy (get (featuresOf body) ''loanAmount'')"
  shows "predict_POST c r t body =
    Failure 400 ''Missing required fields: creditScore, income, loanAmount''"
  using assms unfolding predict_POST_def Let_def featuresOf_def [symmetric] ToBoolean_falsy
  by auto

lemma predict_POST_Success:
  assumes "\<not> nullish body"
    and "\<not> falsy (get (featuresOf body) ''creditScore'')"
    and "\<not> falsy (get (featuresOf body) ''income'')"
    and "\<not> falsy (get (featuresOf body) ''loanAmount'')"
  shows "predict_POST c r t body =
    Success
      \<lparr>predictionOut =
        \<lparr>approved = js_gt (clamp (weightedSum c (featuresOf body))) (Fin 0.5),
         probability = clamp (weightedSum c (featuresOf body)),
         confidence = Fin (0.78 + r * 0.12),
         riskScore = js_mul (js_sub (Fin 1) (clamp (weightedSum c (featuresOf body)))) (Fin 100),
         reasoning = snd (scoringOf c (featuresOf body)),
         shapValues = shapValuesOf c (featuresOf body),
         modelVersion = ''1.0.0'',
         predictionTimestamp = t\<rparr>,
       input = featuresOf body\<rparr>"
proof -
  show ?thesis
    using assms
    unfolding predict_POST_def Let_def featuresOf_def [symmetric] ToBoolean_falsy
      calculateCreditScore_Inr [OF featuresOf_not_nullish [OF assms(1)]]
    by (simp add: ToBoolean_falsy js_mul_Fin js_add_Fin)
qed




text \<open>
  Claim C5, amended. For a given request body, two invocations of the prediction handler
  answer the same but for two fields of the prediction: the confidence, which is 0.78 plus
  0.12 times the random number drawn, and the timestamp.
\<close>

theorem predict_POST_deterministic_part:
  "withoutChance (predict_POST c random1 now1 body) = withoutChance (predict_POST c random2 now2 body)
   \<and> (\<forall>resp. predict_POST c random1 now1 body = Success resp \<longrightarrow>
         confidence (predictionOut resp) = Fin (0.78 + random1 * 0.12)
         \<and> predictionTimestamp (predictionOut resp) = now1)"
proof (cases "nullish body")
  case True
  then show ?thesis by (simp add: predict_POST_null)
next
  case nn: False
  show ?thesis
  proof (cases "falsy (get (featuresOf body) ''creditScore'') \<or> falsy (get (featuresOf body) ''income'')
      \<or> falsy (get (featuresOf body) ''loanAmount'')")
    case True
    show ?thesis by (simp add: predict_POST_400 [OF nn True])
  next
    case False
    then have f: "\<not> falsy (get (featuresOf body) ''creditScore'')"
      "\<not> falsy (get (featuresOf body) ''income'')" "\<not> falsy (get (featuresOf body) ''loanAmount'')"
      by auto
    show ?thesis
      by (auto simp add: predict_POST_Success [OF nn f] withoutChance_def)
  qed
qed

theorem predict_POST_deterministic_part_witness:
  "withoutChance (predict_POST conv0 0 ''2024-01-01T00:00:00.000Z'' applicant)
     = withoutChance (predict_POST conv0 (1 / 2) ''2024-01-02T00:00:00.000Z'' applicant)
   \<and> (\<exists>resp. predict_POST conv0 (1 / 2) ''2024-01-02T00:00:00.000Z'' applicant = Success resp
        \<and> confidence (predictionOut resp) = Fin 0.84)"
proof -
  have h: "\<not> nullish applicant \<and> \<not> falsy (get (featuresOf applicant) ''creditScore'')
      \<and> \<not> falsy (get (featuresOf applicant) ''income'')
      \<and> \<not> falsy (get (featuresOf applicant) ''loanAmount'')"
    by (simp add: nullish_def applicant_def featuresOf_def js_or_def falsy_def)
  then obtain resp where
    r: "predict_POST conv0 (1 / 2) ''2024-01-02T00:00:00.000Z'' applicant = Success resp"
    using predict_POST_Success [of applicant conv0 "1 / 2"] by blast
  from predict_POST_deterministic_part
    [of conv0 "1 / 2" "''2024-01-02T00:00:00.000Z''" applicant 0 "''2024-01-01T00:00:00.000Z''"] r
  have "confidence (predictionOut resp) = Fin (0.78 + (1 / 2) * 0.12)"
    and "withoutChance (predict_POST conv0 0 ''2024-01-01T00:00:00.000Z'' applicant)
     = withoutChance (predict_POST conv0 (1 / 2) ''2024-01-02T00:00:00.000Z'' applicant)"
    by simp_all
  with r show ?thesis by simp
qed

text \<open>
  Claim C5 as stated fails: on the same body, two invocations whose random draws are 0
  and 0.5 answer differently (the confidences are 0.78 and 0.84).
\<close>

theorem predict_POST_random_counterexample:
  "predict_POST conv0 0 [] applicant \<noteq> predict_POST conv0 (1 / 2) [] applicant"
proof -
  have h: "\<not> nullish applicant" "\<not> falsy (get (featuresOf applicant) ''creditScore'')"
      "\<not> falsy (get (featuresOf applicant) ''income'')"
      "\<not> falsy (get (featuresOf applicant) ''loanAmount'')"
    by (simp_all add: nullish_def applicant_def featuresOf_def js_or_def falsy_def)
  show ?thesis
    by (simp add: predict_POST_Success [OF h])
qed

section \<open>Explanations\<close>

lemma set_insertShap: "set (insertShap x ys) = insert x (set ys)"
  by (induction ys) auto

lemma set_sortShap: "set (sortShap xs) = set xs"
  unfolding sortShap_def by (induction xs) (simp_all add: set_insertShap)

lemma length_insertShap: "length (insertShap x ys) = Suc (length ys)"
  by (induction ys) auto

lemma length_sortShap: "length (sortShap xs) = length xs"
  unfolding sortShap_def by (induction xs) (simp_all add: length_insertShap)

lemma calculateShapValues_Inr:
  "\<not> nullish features \<Longrightarrow>
   calculateShapValues c features prediction =
     Inr (sortShap
       [\<lparr>feature = ''creditScore'', featureValue = get features ''creditScore'',
         contribution = creditContribution c (get features ''creditScore''),
         displayName = ''Credit Score''\<rparr>,
        \<lparr>feature = ''income'', featureValue = get features ''income'',
         contribution = incomeContribution c (get features ''income''),
         displayName = ''Annual Income''\<rparr>,
        \<lparr>feature = ''loanAmount'', featureValue = get features ''loanAmount'',
         contribution = loanContribution c (get features ''loanAmount''),
         displayName = ''Loan Amount''\<rparr>,
        \<lparr>feature = ''debtToIncome'', featureValue = debtToIncomeOf c features,
         contribution = dtiContribution c (debtToIncomeOf c features),
         displayName = ''Debt-to-Income Ratio''\<rparr>,
        \<lparr>feature = ''employmentLength'', featureValue = get features ''employmentLength'',
         contribution = empContribution c (get features ''employmentLength''),
         displayName = ''Employment Length''\<rparr>,
        \<lparr>feature = ''age'', featureValue = get features ''age'',
         contribution = ageContribution c (get features ''age''), displayName = ''Age''\<rparr>,
        \<lparr>feature = ''homeOwnership'', featureValue = get features ''homeOwnership'',
         contribution = homeContribution (get features ''homeOwnership''),
         displayName = ''Home Ownership''\<rparr>,
        \<lparr>feature = ''derogatory'', featureValue = derogatoryOf features,
         contribution = derogContribution c (derogatoryOf features),
         displayName = ''Derogatory Marks''\<rparr>])"
  by (simp add: calculateShapValues_def Let_def)

lemma constant_contributions:
  "creditContribution c v \<in> Fin ` hardcoded"
  "incomeContribution c v \<in> Fin ` hardcoded"
  "loanContribution c v \<in> Fin ` hardcoded"
  "dtiContribution c v \<in> Fin ` hardcoded"
  "empContribution c v \<in> Fin ` hardcoded"
  "ageContribution c v \<in> Fin ` hardcoded"
  "homeContribution v \<in> Fin ` hardcoded"
  by (simp_all add: creditContribution_def incomeContribution_def loanContribution_def
      dtiContribution_def empContribution_def ageContribution_def homeContribution_def
      hardcoded_def)

lemma derogContribution_cases:
  "(\<exists>q. derogContribution c v = Fin q) \<or> derogContribution c v = NInf"
proof (cases "js_gt (ToNumber c v) (Fin 0)")
  case True
  from js_gt_zero_cases [OF True] show ?thesis
  proof
    assume "\<exists>q. ToNumber c v = Fin q \<and> 0 < q"
    then obtain q where q: "ToNumber c v = Fin q" "0 < q" by blast
    with True have "derogContribution c v = Fin (- 0.10 * q)"
      by (simp add: derogContribution_def js_mul_def is_inf_def is_zero_def)
    then show ?thesis by blast
  next
    assume "ToNumber c v = PInf"
    with True show ?thesis
      by (simp add: derogContribution_def js_mul_def is_inf_def is_zero_def inf_s_def)
  qed
next
  case False
  then have "derogContribution c v = Fin 0.02" by (simp add: derogContribution_def)
  then show ?thesis by blast
qed

text \<open>
  Claim C4, amended. The prediction passed to \<open>calculateShapValues\<close> has no effect on its
  result. For features other than \<open>null\<close> it returns eight explanations, one per feature,
  and the contribution of each depends on the value reported for that feature alone. For
  every feature but \<open>derogatory\<close> it is one of finitely many hardcoded constants, selected
  by thresholds; for \<open>derogatory\<close> it is -0.10 times the value when the value is positive,
  and the constant 0.02 otherwise.
\<close>

theorem calculateShapValues_lookup:
  "calculateShapValues c features prediction = calculateShapValues c features prediction'
   \<and> (\<not> nullish features \<longrightarrow>
        (\<exists>svs. calculateShapValues c features prediction = Inr svs
           \<and> length svs = 8
           \<and> feature ` set svs =
               {''creditScore'', ''income'', ''loanAmount'', ''debtToIncome'',
                ''employmentLength'', ''age'', ''homeOwnership'', ''derogatory''}
           \<and> (\<forall>sv \<in> set svs.
                 contribution sv = contributionOf c (feature sv) (featureValue sv)
                 \<and> (feature sv \<noteq> ''derogatory'' \<longrightarrow> contribution sv \<in> Fin ` hardcoded)
                 \<and> (feature sv = ''derogatory'' \<longrightarrow>
                      contribution sv =
                        (if js_gt (ToNumber c (featureValue sv)) (Fin 0)
                         then js_mul (Fin (- 0.10)) (ToNumber c (featureValue sv))
                         else Fin 0.02)))))"
proof (cases "nullish features")
  case True
  then show ?thesis by (simp add: calculateShapValues_def)
next
  case False
  show ?thesis
    unfolding calculateShapValues_Inr [OF False]
    using constant_contributions
    by (simp add: set_sortShap length_sortShap contributionOf_def derogContribution_def)
qed

theorem calculateShapValues_lookup_witness:
  "\<not> nullish applicant
   \<and> (\<exists>svs. calculateShapValues conv0 applicant (Num (Fin 0.9)) = Inr svs
        \<and> calculateShapValues conv0 applicant (Num (Fin 0.1)) = Inr svs
        \<and> length svs = 8
        \<and> (\<forall>sv \<in> set svs.
              contribution sv = contributionOf conv0 (feature sv) (featureValue sv)
              \<and> (feature sv \<noteq> ''derogatory'' \<longrightarrow> contribution sv \<in> Fin ` hardcoded)))"
proof -
  have h: "\<not> nullish applicant" by (simp add: nullish_def applicant_def)
  from calculateShapValues_lookup [of conv0 applicant "Num (Fin 0.9)" "Num (Fin 0.1)"] h
  show ?thesis by force
qed

lemma shapCompare_Fin:
  "js_gt (shapCompare \<lparr>feature = n, featureValue = v, contribution = Fin a, displayName = d\<rparr>
           \<lparr>feature = n', featureValue = v', contribution = Fin b, displayName = d'\<rparr>) (Fin 0)
     = (\<bar>a\<bar> < \<bar>b\<bar>)"
  by (simp add: shapCompare_def js_sub_Fin js_gt_def)

lemma marked_contributions:
  "calculateShapValues conv0 (marked n) Undefined =
     Inr (sortShap
       [\<lparr>feature = ''creditScore'', featureValue = Undefined,
         contribution = Fin (- 0.12), displayName = ''Credit Score''\<rparr>,
        \<lparr>feature = ''income'', featureValue = Undefined,
         contribution = Fin (- 0.08), displayName = ''Annual Income''\<rparr>,
        \<lparr>feature = ''loanAmount'', featureValue = Undefined,
         contribution = Fin (- 0.10), displayName = ''Loan Amount''\<rparr>,
        \<lparr>feature = ''debtToIncome'', featureValue = Num NaN,
         contribution = Fin (- 0.12), displayName = ''Debt-to-Income Ratio''\<rparr>,
        \<lparr>feature = ''employmentLength'', featureValue = Undefined,
         contribution = Fin (- 0.04), displayName = ''Employment Length''\<rparr>,
        \<lparr>feature = ''age'', featureValue = Undefined,
         contribution = Fin (- 0.02), displayName = ''Age''\<rparr>,
        \<lparr>feature = ''homeOwnership'', featureValue = Undefined,
         contribution = Fin 0, displayName = ''Home Ownership''\<rparr>,
        \<lparr>feature = ''derogatory'', featureValue = Num (Fin n),
         contribution = derogContribution conv0 (Num (Fin n)),
         displayName = ''Derogatory Marks''\<rparr>])"
proof -
  have nn: "\<not> nullish (marked n)" by (simp add: nullish_def marked_def)
  have g: "get (marked n) ''creditScore'' = Undefined" "get (marked n) ''income'' = Undefined"
    "get (marked n) ''loanAmount'' = Undefined" "get (marked n) ''employmentLength'' = Undefined"
    "get (marked n) ''age'' = Undefined" "get (marked n) ''homeOwnership'' = Undefined"
    "debtToIncomeOf conv0 (marked n) = Num NaN" "derogatoryOf (marked n) = Num (Fin n)"
    by (simp_all add: marked_def debtToIncomeOf_def derogatoryOf_def js_div_def)
  have k: "creditContribution conv0 Undefined = Fin (- 0.12)"
    "incomeContribution conv0 Undefined = Fin (- 0.08)"
    "loanContribution conv0 Undefined = Fin (- 0.10)"
    "dtiContribution conv0 (Num NaN) = Fin (- 0.12)"
    "empContribution conv0 Undefined = Fin (- 0.04)"
    "ageContribution conv0 Undefined = Fin (- 0.02)"
    "homeContribution Undefined = Fin 0"
    by (simp_all add: creditContribution_def incomeContribution_def loanContribution_def
        dtiContribution_def empContribution_def ageContribution_def homeContribution_def
        js_ge_def)
  show ?thesis
    unfolding calculateShapValues_Inr [OF nn] g k ..
qed

text \<open>
  Claim C4 as stated fails: one derogatory mark and two fall in the same threshold
  interval (both are positive), and their contributions differ, -0.10 and -0.20.
\<close>

theorem calculateShapValues_derogatory_counterexample:
  "js_gt (ToNumber conv0 (Num (Fin 1))) (Fin 0) \<and> js_gt (ToNumber conv0 (Num (Fin 2))) (Fin 0)
   \<and> map_sum id (contributionFor ''derogatory'') (calculateShapValues conv0 (marked 1) Undefined)
       = Inr [Fin (- 0.10)]
   \<and> map_sum id (contributionFor ''derogatory'') (calculateShapValues conv0 (marked 2) Undefined)
       = Inr [Fin (- 0.20)]"
proof -
  have d: "derogContribution conv0 (Num (Fin 1)) = Fin (- 0.10)"
    "derogContribution conv0 (Num (Fin 2)) = Fin (- 0.20)"
    by (simp_all add: derogContribution_def js_gt_def js_mul_def is_inf_def is_zero_def)
  have c: "js_gt (ToNumber conv0 (Num (Fin 1))) (Fin 0)" "js_gt (ToNumber conv0 (Num (Fin 2))) (Fin 0)"
    by (simp_all add: js_gt_def)
  have one: "map_sum id (contributionFor ''derogatory'')
      (calculateShapValues conv0 (marked 1) Undefined) = Inr [Fin (- 0.10)]"
    unfolding marked_contributions d
    by (simp add: sortShap_def shapCompare_Fin contributionFor_def)
  have two: "map_sum id (contributionFor ''derogatory'')
      (calculateShapValues conv0 (marked 2) Undefined) = Inr [Fin (- 0.20)]"
    unfolding marked_contributions d
    by (simp add: sortShap_def shapCompare_Fin contributionFor_def)
  from c one two show ?thesis by blast
qed

lemma foldl_js_add_NInf:
  "\<forall>x \<in> set xs. (\<exists>q. x = Fin q) \<or> x = NInf \<Longrightarrow> foldl js_add NInf xs = NInf"
  by (induction xs) (auto simp: js_add_def is_inf_def)

lemma foldl_js_add_Fin:
  "\<forall>x \<in> set xs. (\<exists>q. x = Fin q) \<or> x = NInf \<Longrightarrow>
   foldl js_add (Fin a) xs = (if NInf \<in> set xs then NInf else Fin (a + sum_list (map mag xs)))"
proof (induction xs arbitrary: a)
  case Nil
  then show ?case by simp
next
  case (Cons x xs)
  from Cons.prems have "(\<exists>q. x = Fin q) \<or> x = NInf" by simp
  then show ?case
  proof
    assume "\<exists>q. x = Fin q"
    then obtain q where q: "x = Fin q" ..
    with Cons show ?thesis by (simp add: js_add_Fin add.assoc)
  next
    assume "x = NInf"
    moreover have "js_add (Fin a) NInf = NInf" by (simp add: js_add_def is_inf_def)
    ultimately show ?thesis using Cons.prems by (simp add: foldl_js_add_NInf)
  qed
qed

lemma contributions_Fin_or_NInf:
  assumes "calculateShapValues c features prediction = Inr svs"
  shows "\<forall>x \<in> set (map contribution svs). (\<exists>q. x = Fin q) \<or> x = NInf"
proof -
  from assms have nn: "\<not> nullish features"
    by (auto simp: calculateShapValues_def split: if_splits)
  have k: "\<And>x. x \<in> Fin ` hardcoded \<Longrightarrow> (\<exists>q. x = Fin q) \<or> x = NInf" by blast
  from assms have "set (map contribution svs) =
      {creditContribution c (get features ''creditScore''),
       incomeContribution c (get features ''income''),
       loanContribution c (get features ''loanAmount''),
       dtiContribution c (debtToIncomeOf c features),
       empContribution c (get features ''employmentLength''),
       ageContribution c (get features ''age''),
       homeContribution (get features ''homeOwnership''),
       derogContribution c (derogatoryOf features)}"
    unfolding calculateShapValues_Inr [OF nn] by (auto simp: set_sortShap)
  then show ?thesis
    using constant_contributions [THEN k] derogContribution_cases [of c "derogatoryOf features"]
    by (simp only: ball_simps simp_thms)
qed

lemma explain_finalPrediction:
  assumes "\<forall>x \<in> set (map contribution svs). (\<exists>q. x = Fin q) \<or> x = NInf"
  shows "finalPrediction (explain features svs)
           = clamp (js_add (Fin 0.5) (contributionsSum (map contribution svs)))"
    and "\<exists>q. finalPrediction (explain features svs) = Fin q \<and> 0.05 \<le> q \<and> q \<le> 0.95"
proof -
  have t: "foldl (\<lambda>sum sv. js_add sum (contribution sv)) (Fin 0) svs
      = contributionsSum (map contribution svs)"
    using foldl_js_add_Fin [OF assms, of 0]
    by (simp add: foldl_map contributionsSum_def)
  show f: "finalPrediction (explain features svs)
           = clamp (js_add (Fin 0.5) (contributionsSum (map contribution svs)))"
    unfolding explain_def Let_def t Math_clamp by simp
  have "(\<exists>q. js_add (Fin 0.5) (contributionsSum (map contribution svs)) = Fin q)
      \<or> js_add (Fin 0.5) (contributionsSum (map contribution svs)) = NInf"
    by (simp add: contributionsSum_def js_add_Fin js_add_def is_inf_def)
  from clamp_range [OF this] show
    "\<exists>q. finalPrediction (explain features svs) = Fin q \<and> 0.05 \<le> q \<and> q \<le> 0.95"
    unfolding f .
qed

lemma explain_decision:
  "decision (interpreted (explain features svs))
     = (if js_gt (finalPrediction (explain features svs)) (Fin 0.5)
        then ''Approved'' else ''Rejected'')"
  by (simp add: explain_def Let_def)

lemma shap_POST_individual:
  assumes "shap_POST c body = Success (IndividualExplanation e)"
  shows "\<exists>svs. calculateShapValues c (get body ''features'')
           (js_or (get body ''prediction'') (Num (Fin 0.5))) = Inr svs
         \<and> e = explain (get body ''features'') svs"
  using assms
  by (auto simp: shap_POST_def Let_def split: if_splits sum.splits)

text \<open>
  Claim C9. Whenever the explanation handler returns an individual explanation, its final
  prediction is the base value 0.5 plus the sum of the returned contributions, clamped to
  the interval from 0.05 to 0.95 (and so a finite number of that interval), and the
  decision is \<open>Approved\<close> when the final prediction exceeds 0.5 and \<open>Rejected\<close> otherwise.
  It returns one for every body other than \<open>null\<close> whose type is not \<open>global\<close> and whose
  features pass the handler's test \<open>!features\<close>.
\<close>

theorem shap_POST_finalPrediction:
  "(\<forall>e. shap_POST c body = Success (IndividualExplanation e) \<longrightarrow>
       finalPrediction e
         = clamp (js_add (Fin 0.5) (contributionsSum (map contribution (explainedBy e))))
       \<and> (\<exists>q. finalPrediction e = Fin q \<and> 0.05 \<le> q \<and> q \<le> 0.95)
       \<and> decision (interpreted e)
           = (if js_gt (finalPrediction e) (Fin 0.5) then ''Approved'' else ''Rejected''))
   \<and> (\<not> nullish body \<and> \<not> strict_eq (requestType body) (Str ''global'')
        \<and> \<not> falsy (get body ''features'')
      \<longrightarrow> (\<exists>e. shap_POST c body = Success (IndividualExplanation e)))"
proof (intro conjI allI impI)
  fix e
  assume "shap_POST c body = Success (IndividualExplanation e)"
  from shap_POST_individual [OF this] obtain svs where
    svs: "calculateShapValues c (get body ''features'')
           (js_or (get body ''prediction'') (Num (Fin 0.5))) = Inr svs"
    and e: "e = explain (get body ''features'') svs"
    by blast
  have x: "explainedBy e = svs" by (simp add: e explain_def Let_def)
  note fp = explain_finalPrediction [OF contributions_Fin_or_NInf [OF svs], of "get body ''features''"]
  show "finalPrediction e
         = clamp (js_add (Fin 0.5) (contributionsSum (map contribution (explainedBy e))))"
    unfolding x using fp(1) by (simp add: e)
  show "\<exists>q. finalPrediction e = Fin q \<and> 0.05 \<le> q \<and> q \<le> 0.95"
    using fp(2) by (simp add: e)
  show "decision (interpreted e)
           = (if js_gt (finalPrediction e) (Fin 0.5) then ''Approved'' else ''Rejected'')"
    unfolding e by (rule explain_decision)
next
  assume a: "\<not> nullish body \<and> \<not> strict_eq (requestType body) (Str ''global'')
        \<and> \<not> falsy (get body ''features'')"
  then have "\<not> nullish (get body ''features'')" by (auto simp: falsy_def nullish_def)
  from calculateShapValues_Inr [OF this] a
  show "\<exists>e. shap_POST c body = Success (IndividualExplanation e)"
    by (simp add: shap_POST_def Let_def requestType_def ToBoolean_falsy)
qed

theorem shap_POST_finalPrediction_witness:
  "\<not> nullish (Obj 1 [(''features'', applicant)])
   \<and> \<not> strict_eq (requestType (Obj 1 [(''features'', applicant)])) (Str ''global'')
   \<and> \<not> falsy (get (Obj 1 [(''features'', applicant)]) ''features'')
   \<and> (\<exists>e. shap_POST conv0 (Obj 1 [(''features'', applicant)]) = Success (IndividualExplanation e)
        \<and> finalPrediction e
            = clamp (js_add (Fin 0.5) (contributionsSum (map contribution (explainedBy e))))
        \<and> (\<exists>q. finalPrediction e = Fin q \<and> 0.05 \<le> q \<and> q \<le> 0.95)
        \<and> decision (interpreted e)
            = (if js_gt (finalPrediction e) (Fin 0.5) then ''Approved'' else ''Rejected''))"
proof -
  have h: "\<not> nullish (Obj 1 [(''features'', applicant)])
     \<and> \<not> strict_eq (requestType (Obj 1 [(''features'', applicant)])) (Str ''global'')
     \<and> \<not> falsy (get (Obj 1 [(''features'', applicant)]) ''features'')"
    by (simp add: nullish_def requestType_def falsy_def applicant_def)
  from shap_POST_finalPrediction [of conv0 "Obj 1 [(''features'', applicant)]"] h
  show ?thesis by blast
qed

section \<open>The fairness handler\<close>


lemma fairness_POST_cases:
  "fairness_POST c now body =
     (if nullish body then Failure 500 ''Fairness analysis failed''
      else if invalidData (get body ''data'') then Failure 400 ''Invalid data provided''
      else if list_ex nullish (rowsOf (get body ''data''))
        then Failure 500 ''Fairness analysis failed''
      else if length (distinctValues c body) < 2
        then Failure 400 ''Need at least 2 groups for fairness analysis''
      else
        (case fillGroupMetrics c (rowsOf (get body ''data''))
                (ToString c (protectedAttributeOf body)) (distinctValues c body) [] of
           Inl e \<Rightarrow> Failure 500 ''Fairness analysis failed''
         | Inr filled \<Rightarrow>
             Success (analysis c now (rowsOf (get body ''data'')) (protectedAttributeOf body)
                        filled)))"
  by (cases "get body ''data''")
    (simp_all add: fairness_POST_def Let_def invalidData_def rowsOf_def distinctValues_def
      protectedAttributeOf_def cong: sum.case_cong)
















lemma analysis_disparateImpact:
  "disparateImpact (metrics (fairness (analysis c now data attr filled)))
     = js_div (Math_min (map approvalRate (map snd filled)))
         (num_or (Math_max (map approvalRate (map snd filled))) (Fin 1))"
  "rule80Percent (complianceStatus (fairness (analysis c now data attr filled)))
     = js_ge (disparateImpact (metrics (fairness (analysis c now data attr filled)))) (Fin 0.8)"
  "demographicParityDifference (metrics (fairness (analysis c now data attr filled)))
     = js_sub (Math_max (map approvalRate (map snd filled)))
         (Math_min (map approvalRate (map snd filled)))"
  by (simp_all add: analysis_def Let_def)








lemma same_label_facts:
  "\<not> nullish sameLabel" "\<not> invalidData (get sameLabel ''data'')"
  "\<not> list_ex nullish (rowsOf (get sameLabel ''data''))"
  "distinctValues conv0 sameLabel = [Null, Str ''null'']"
  "groupApprovalRates conv0 sameLabel = [1, 0]"
  "map (ToString conv0) (distinctValues conv0 sameLabel) = [''null'', ''null'']"
  by (simp_all add: sameLabel_def nullish_def invalidData_def rowsOf_def distinctValues_def
      groupApprovalRates_def groupApprovalRate_def groupRows_def isApproved_def
      protectedAttributeOf_def new_Set_def set_add_def SameValueZero_def js_num_eq_def
      is_zero_def)

lemma same_label_filled:
  "fillGroupMetrics conv0 (rowsOf (get sameLabel ''data'')) ''gender'' [Null, Str ''null''] []
     = Inr [(''null'', \<lparr>totalCount = 1, approvalRate = Fin 0, truePositiveRate = Fin 0,
                         falsePositiveRate = Fin 0, precision = Fin 0\<rparr>)]"
  by (simp add: calculateGroupMetrics_Inr [OF same_label_facts(3)] Let_def)
    (simp add: sameLabel_def rowsOf_def groupRows_def isApproved_def isActualPositive_def
      isActualNegative_def guarded_ratio_def js_num_eq_def is_zero_def)

text \<open>
  Claim C2 fails on the code. The values \<open>null\<close> and the string \<open>null\<close> are two groups, with
  approval rates 1 and 0; both are stored under the key \<open>null\<close>, the second over the first,
  and the difference returned is 0 instead of 1. Lemma \<open>fairness_POST_rates\<close> above shows
  that the difference returned is the highest rate minus the lowest whenever no two groups
  print as the same string.
\<close>

theorem fairness_POST_same_label:
  "distinctValues conv0 sameLabel = [Null, Str ''null'']
   \<and> groupApprovalRates conv0 sameLabel = [1, 0]
   \<and> map_response (\<lambda>resp. demographicParityDifference (metrics (fairness resp)))
        (fairness_POST conv0 [] sameLabel) = Success (Fin 0)
   \<and> map_response (\<lambda>resp. map fst (groupMetrics (fairness resp)))
        (fairness_POST conv0 [] sameLabel) = Success [''null'']"
proof -
  have k: "ToString conv0 (protectedAttributeOf sameLabel) = ''gender''"
    by (simp add: protectedAttributeOf_def sameLabel_def)
  have "fairness_POST conv0 [] sameLabel
      = Success (analysis conv0 [] (rowsOf (get sameLabel ''data'')) (protectedAttributeOf sameLabel)
          [(''null'', \<lparr>totalCount = 1, approvalRate = Fin 0, truePositiveRate = Fin 0,
                         falsePositiveRate = Fin 0, precision = Fin 0\<rparr>)])"
    by (simp add: fairness_POST_cases same_label_facts k same_label_filled
        del: fillGroupMetrics.simps)
  then show ?thesis
    by (simp add: same_label_facts analysis_disparateImpact Math_max_def Math_min_def max2_def
        min2_def js_sub_Fin analysis_def Let_def)
qed

end
